theory Spec2Isabelle
  imports Complex_Main
begin

section \<open>Data models (src/core/models.py)\<close>

text \<open>
  The pydantic models of the repository. Field names carry a short prefix of their
  class, since several classes share \<open>interaction_id\<close>, \<open>content\<close>, \<open>error\<close>
  and a record field is a global selector. \<open>Optional[T]\<close> is \<open>T option\<close>.
\<close>

datatype ResearchStatusEnum = IN_PROGRESS | COMPLETED | FAILED | CANCELLED

text \<open>\<open>ResearchStatusEnum\<close> is a \<open>str\<close> enum: every member has a string value.\<close>

fun status_value :: "ResearchStatusEnum \<Rightarrow> string" where
  "status_value IN_PROGRESS = ''in_progress''"
| "status_value COMPLETED = ''completed''"
| "status_value FAILED = ''failed''"
| "status_value CANCELLED = ''cancelled''"

record ResearchStatus =
  st_interaction_id :: string
  st_status :: ResearchStatusEnum
  st_error :: "string option"

record ResearchResult =
  res_interaction_id :: string
  res_status :: ResearchStatusEnum
  res_content :: "string option"
  res_citations :: "string list option"
  res_error :: "string option"

datatype ResearchEventType = START | THOUGHT | TEXT_DELTA | COMPLETE | ERROR

record ResearchEvent =
  ev_event_type :: ResearchEventType
  ev_interaction_id :: "string option"
  ev_content :: "string option"
  ev_event_id :: "string option"

record Citation =
  cit_url :: string
  cit_title :: "string option"

record GroundingSupport =
  gs_text :: string
  gs_start_index :: int
  gs_end_index :: int
  gs_citation_indices :: "int list"

record QuickSearchResult =
  qs_query :: string
  qs_content :: string
  qs_citations :: "Citation list"
  qs_grounding_supports :: "GroundingSupport list"
  qs_search_queries :: "string list"
  qs_model :: string
  qs_error :: "string option"

record UrlMetadata =
  um_url :: string
  um_status :: string
  um_title :: "string option"

record UrlAnalysisResult =
  ua_urls :: "string list"
  ua_query :: string
  ua_content :: string
  ua_url_metadata :: "UrlMetadata list"
  ua_model :: string
  ua_error :: "string option"

section \<open>The vendor SDK's objects, as the client reads them\<close>

text \<open>
  The SDK is not part of the repository; the client reads its objects attribute by
  attribute. The records below give each object the attributes \<open>src/core/client.py\<close>
  reads, typed by how it reads them:
  \<^item> an attribute that some read reaches behind \<open>hasattr(x, "a")\<close> alone is an
    \<open>attr\<close>: \<open>Missing\<close> when the object has no such attribute, \<open>PyNone\<close> when
    the attribute is there and holds \<open>None\<close>, \<open>Val v\<close> when it holds the value
    \<open>v\<close>. The source takes the \<open>hasattr\<close> branch for \<open>PyNone\<close> as for a
    value, and what it then does with the \<open>None\<close> is part of the model;
  \<^item> an attribute whose every read is behind \<open>hasattr(x, "a") and x.a\<close>, or behind
    a \<open>hasattr\<close> whose next step is a \<open>hasattr\<close> on the value, is an option whose
    \<open>None\<close> stands for the missing attribute and for the Python value \<open>None\<close>
    (the source takes the same branch for both); an empty string or list stays a value
    and is tested where the source tests truthiness;
  \<^item> an attribute whose every read is behind a plain truthiness test and that holds
    a list is that list, \<open>[]\<close> standing for \<open>None\<close> as well;
  \<^item> an attribute read with no guard is a plain field.
  A value that is not \<open>None\<close> has its SDK type (a string where the source uses it as
  text, a list where the source iterates it).
\<close>

datatype 'a attr = Missing | PyNone | Val 'a

text \<open>
  \<open>x.a if hasattr(x, "a") else d\<close>, as a Python value: \<open>None\<close> is the Python
  \<open>None\<close> that a present attribute holds.
\<close>

definition attr_or :: "'a attr \<Rightarrow> 'a \<Rightarrow> 'a option" where
  "attr_or a d = (case a of Missing \<Rightarrow> Some d | PyNone \<Rightarrow> None | Val v \<Rightarrow> Some v)"

text \<open>
  In \<open>Web\<close>, the title is passed to an optional field, so a missing title and a
  \<open>None\<close> title give the same citation.
\<close>

record Web =
  web_uri :: "string attr"
  web_title :: "string option"

record GroundingChunk =
  chunk_web :: "Web option"

record Segment =
  seg_text :: "string attr"
  seg_start_index :: "int attr"
  seg_end_index :: "int attr"

record Support =
  sup_segment :: "Segment option"
  sup_grounding_chunk_indices :: "int list attr"

record GroundingMetadata =
  gm_web_search_queries :: "string list option"
  gm_grounding_chunks :: "GroundingChunk list attr"
  gm_grounding_supports :: "Support list option"

record Output =
  out_text :: "string option"
  out_grounding_metadata :: "GroundingMetadata option"

text \<open>
  An interaction, as \<open>interactions.get\<close> and \<open>interactions.create\<close> return it.
  \<open>int_error\<close> is what \<open>getattr(interaction, "error", None)\<close> gives, a present
  error being kept as its \<open>str\<close>.
\<close>

record Interaction =
  int_id :: string
  int_status :: string
  int_outputs :: "Output list"
  int_error :: "string option"

text \<open>
  A chunk of the stream that \<open>interactions.create(..., stream=True)\<close> returns.
  \<open>delta_text\<close> is \<open>delta.text\<close>, the content of a text delta, a string or
  \<open>None\<close>; \<open>delta_content_text\<close> is \<open>delta.content.text\<close>, \<open>Missing\<close> when
  the delta has no \<open>content\<close> or the content no \<open>text\<close>; \<open>delta_str\<close> is
  \<open>str(delta)\<close>. \<open>chunk_error\<close> is the \<open>str\<close> of the chunk's \<open>error\<close>
  attribute, \<open>None\<close> when the chunk has none. \<open>chunk_interaction\<close> is read behind
  \<open>hasattr(...) and ...\<close> in the completion block and with no guard in the start
  block, where its \<open>None\<close> raises.
\<close>

record Delta =
  delta_type :: string
  delta_text :: "string option"
  delta_content_text :: "string attr"
  delta_str :: string

record Chunk =
  chunk_event_type :: string
  chunk_interaction :: "Interaction option"
  chunk_event_id :: "string option"
  chunk_delta :: "Delta attr"
  chunk_error :: "string option"

text \<open>The response of \<open>models.generate_content\<close>.\<close>

record UrlMeta =
  umeta_retrieved_url :: "string attr"
  umeta_url_retrieval_status :: "string attr"

record UrlContextMetadata =
  ucm_url_metadata :: "UrlMeta list option"

record Candidate =
  cand_grounding_metadata :: "GroundingMetadata option"
  cand_url_context_metadata :: "UrlContextMetadata option"

record Response =
  resp_text :: "string option"
  resp_candidates :: "Candidate list"

text \<open>The keyword arguments the client passes to the SDK calls it makes.\<close>

record create_request =
  cr_input :: string
  cr_agent :: string
  cr_previous_interaction_id :: string

datatype tool = GoogleSearch | UrlContext

record generate_request =
  gr_model :: string
  gr_contents :: string
  gr_tools :: "tool list"

section \<open>Errors, the remote service and the world\<close>

text \<open>
  \<open>TimeoutError timeout interaction_id\<close> is the error \<open>poll_until_complete\<close>
  raises; its message is the f-string over these two values. An exception of an SDK
  call is \<open>RemoteError\<close> with its message. \<open>AttributeError a\<close> is a failed read
  that involves attribute \<open>a\<close> (the object lacks it, or the reading goes through
  \<open>None\<close>), \<open>TypeError a\<close> the
  iteration of the \<open>None\<close> that attribute \<open>a\<close> holds, and \<open>ValidationError m\<close>
  the refusal of the pydantic model \<open>m\<close> (src/core/models.py) to take \<open>None\<close> for
  a field declared \<open>str\<close> or \<open>int\<close>, or inside a \<open>list[str]\<close>.
\<close>

datatype error =
    TimeoutError int string
  | RemoteError string
  | AttributeError string
  | TypeError string
  | ValidationError string

text \<open>
  What the program cannot decide is read from oracles: the answer of the service to the
  n-th call of \<open>interactions.get\<close>, of \<open>interactions.create\<close> and of
  \<open>models.generate_content\<close> (an exception message, or the object returned), the
  value of the n-th \<open>time.time()\<close> call, and \<open>str(e)\<close> for an exception that the
  interpreter or pydantic raises, whose wording is theirs. Clock readings are real
  numbers and their difference is taken exactly.
\<close>

record remote =
  interactions_get :: "nat \<Rightarrow> string \<Rightarrow> string + Interaction"
  interactions_create :: "nat \<Rightarrow> create_request \<Rightarrow> string + Interaction"
  generate_content :: "nat \<Rightarrow> generate_request \<Rightarrow> string + Response"
  time_time :: "nat \<Rightarrow> real"
  exception_text :: "error \<Rightarrow> string"

text \<open>
  The effects made so far, oldest first: the handles passed to \<open>interactions.get\<close>,
  the requests passed to \<open>interactions.create\<close> and to \<open>models.generate_content\<close>,
  the number of clock readings, and the arguments of the \<open>asyncio.sleep\<close> calls.
\<close>

record world =
  fetched :: "string list"
  created :: "create_request list"
  generated :: "generate_request list"
  clock_reads :: nat
  slept :: "int list"

definition fetch :: "remote \<Rightarrow> string \<Rightarrow> world \<Rightarrow> world \<times> (error + Interaction)" where
  "fetch R interaction_id w =
     (w\<lparr>fetched := fetched w @ [interaction_id]\<rparr>,
      case interactions_get R (length (fetched w)) interaction_id of
        Inl msg \<Rightarrow> Inl (RemoteError msg)
      | Inr interaction \<Rightarrow> Inr interaction)"

definition read_clock :: "remote \<Rightarrow> world \<Rightarrow> world \<times> real" where
  "read_clock R w = (w\<lparr>clock_reads := Suc (clock_reads w)\<rparr>, time_time R (clock_reads w))"

definition sleep :: "int \<Rightarrow> world \<Rightarrow> world" where
  "sleep seconds w = w\<lparr>slept := slept w @ [seconds]\<rparr>"

section \<open>DeepResearchClient (src/core/client.py)\<close>

text \<open>The dictionary \<open>status_map\<close> of \<open>get_status\<close> and \<open>get_result\<close>.\<close>

definition status_map :: "(string \<times> ResearchStatusEnum) list" where
  "status_map =
     [(''in_progress'', IN_PROGRESS),
      (''completed'', COMPLETED),
      (''failed'', FAILED),
      (''cancelled'', CANCELLED)]"

text \<open>\<open>d.get(key, default)\<close>.\<close>

definition dict_get :: "('k \<times> 'v) list \<Rightarrow> 'k \<Rightarrow> 'v \<Rightarrow> 'v" where
  "dict_get d key dflt = (case map_of d key of None \<Rightarrow> dflt | Some v \<Rightarrow> v)"

text \<open>\<open>str(error) if error else None\<close>: an absent or empty error is falsy.\<close>

definition str_if_truthy :: "string option \<Rightarrow> string option" where
  "str_if_truthy error =
     (case error of None \<Rightarrow> None | Some s \<Rightarrow> if s \<noteq> [] then Some s else None)"

definition get_status :: "remote \<Rightarrow> string \<Rightarrow> world \<Rightarrow> world \<times> (error + ResearchStatus)" where
  "get_status R interaction_id w =
     (case fetch R interaction_id w of
        (w', Inl e) \<Rightarrow> (w', Inl e)
      | (w', Inr interaction) \<Rightarrow>
          (w', Inr \<lparr>st_interaction_id = interaction_id,
                    st_status = dict_get status_map (int_status interaction) IN_PROGRESS,
                    st_error = str_if_truthy (int_error interaction)\<rparr>))"

text \<open>
  The scan \<open>for output in outputs: if hasattr(output, "text") and output.text: ...; break\<close>
  that \<open>get_result\<close>, \<open>stream_research\<close> and \<open>ask_followup\<close> each run over
  \<open>reversed(interaction.outputs)\<close>: the text of the first output met whose text is
  present and non-empty, \<open>None\<close> when the scan ends without one.
\<close>

fun scan_text :: "Output list \<Rightarrow> string option" where
  "scan_text [] = None"
| "scan_text (output # rest) =
     (case out_text output of
        Some t \<Rightarrow> if t \<noteq> [] then Some t else scan_text rest
      | None \<Rightarrow> scan_text rest)"

text \<open>
  \<open>_extract_citations\<close>: the inner loop over the chunks of one output's metadata,
  the outer loop over the outputs, both appending to \<open>citations\<close>. The guards are
  \<open>hasattr\<close> tests only. A \<open>uri\<close> that holds \<open>None\<close> is appended as it is
  (the element \<open>None\<close> of the list below), and \<open>grounding_chunks\<close> that hold
  \<open>None\<close> are iterated, which raises \<open>TypeError\<close> and ends the extraction.
\<close>

definition append_chunk_uri :: "GroundingChunk \<Rightarrow> string option list \<Rightarrow> string option list" where
  "append_chunk_uri chunk citations =
     (case chunk_web chunk of
        None \<Rightarrow> citations
      | Some web \<Rightarrow>
          (case web_uri web of
             Missing \<Rightarrow> citations
           | PyNone \<Rightarrow> citations @ [None]
           | Val uri \<Rightarrow> citations @ [Some uri]))"

definition append_output_uris ::
  "Output \<Rightarrow> string option list \<Rightarrow> error + string option list"
where
  "append_output_uris output citations =
     (case out_grounding_metadata output of
        None \<Rightarrow> Inr citations
      | Some metadata \<Rightarrow>
          (case gm_grounding_chunks metadata of
             Missing \<Rightarrow> Inr citations
           | PyNone \<Rightarrow> Inl (TypeError ''grounding_chunks'')
           | Val chunks \<Rightarrow> Inr (fold append_chunk_uri chunks citations)))"

fun extract_loop :: "Output list \<Rightarrow> string option list \<Rightarrow> error + string option list" where
  "extract_loop [] citations = Inr citations"
| "extract_loop (output # rest) citations =
     (case append_output_uris output citations of
        Inl e \<Rightarrow> Inl e
      | Inr citations' \<Rightarrow> extract_loop rest citations')"

definition extract_citations :: "Interaction \<Rightarrow> error + string option list option" where
  "extract_citations interaction =
     (case extract_loop (int_outputs interaction) [] of
        Inl e \<Rightarrow> Inl e
      | Inr citations \<Rightarrow> Inr (if citations \<noteq> [] then Some citations else None))"

text \<open>
  The constructor call \<open>ResearchResult(...)\<close> of \<open>get_result\<close>: the field
  \<open>citations\<close> is declared \<open>Optional[list[str]]\<close>, so a list that holds
  \<open>None\<close> is refused.
\<close>

definition new_ResearchResult ::
  "string \<Rightarrow> ResearchStatusEnum \<Rightarrow> string option \<Rightarrow> string option list option \<Rightarrow> string option
     \<Rightarrow> error + ResearchResult"
where
  "new_ResearchResult interaction_id status content citations err =
     (case citations of
        None \<Rightarrow>
          Inr \<lparr>res_interaction_id = interaction_id, res_status = status, res_content = content,
               res_citations = None, res_error = err\<rparr>
      | Some cs \<Rightarrow>
          (case those cs of
             None \<Rightarrow> Inl (ValidationError ''ResearchResult'')
           | Some urls \<Rightarrow>
               Inr \<lparr>res_interaction_id = interaction_id, res_status = status,
                    res_content = content, res_citations = Some urls, res_error = err\<rparr>))"

text \<open>
  The part of \<open>get_result\<close> after the fetch: content and citations stay \<open>None\<close>
  unless the status is completed and the outputs are non-empty; then the content is
  scanned first and the citations are extracted next.
\<close>

definition result_of :: "string \<Rightarrow> Interaction \<Rightarrow> error + ResearchResult" where
  "result_of interaction_id interaction =
     (let status = dict_get status_map (int_status interaction) IN_PROGRESS;
          err = str_if_truthy (int_error interaction)
      in if status = COMPLETED \<and> int_outputs interaction \<noteq> [] then
           (case extract_citations interaction of
              Inl e \<Rightarrow> Inl e
            | Inr citations \<Rightarrow>
                new_ResearchResult interaction_id status
                  (scan_text (rev (int_outputs interaction))) citations err)
         else new_ResearchResult interaction_id status None None err)"

definition get_result :: "remote \<Rightarrow> string \<Rightarrow> world \<Rightarrow> world \<times> (error + ResearchResult)" where
  "get_result R interaction_id w =
     (case fetch R interaction_id w of
        (w', Inl e) \<Rightarrow> (w', Inl e)
      | (w', Inr interaction) \<Rightarrow> (w', result_of interaction_id interaction))"

text \<open>
  \<open>poll_until_complete\<close>. The \<open>while True\<close> loop may run forever, so the loop
  is a partial function: \<open>None\<close> is the run that never leaves the loop.
\<close>

partial_function (option) poll_loop ::
  "remote \<Rightarrow> string \<Rightarrow> int \<Rightarrow> int \<Rightarrow> real \<Rightarrow> world \<Rightarrow> (world \<times> (error + ResearchResult)) option"
where
  "poll_loop R interaction_id poll_interval timeout start_time w =
     (case get_status R interaction_id w of
        (w1, Inl e) \<Rightarrow> Some (w1, Inl e)
      | (w1, Inr status) \<Rightarrow>
          if st_status status = COMPLETED then Some (get_result R interaction_id w1)
          else if st_status status = FAILED \<or> st_status status = CANCELLED then
            Some (w1, Inr \<lparr>res_interaction_id = interaction_id,
                           res_status = st_status status,
                           res_content = None,
                           res_citations = None,
                           res_error = st_error status\<rparr>)
          else
            (case read_clock R w1 of
               (w2, now) \<Rightarrow>
                 if now - start_time \<ge> real_of_int timeout then
                   Some (w2, Inl (TimeoutError timeout interaction_id))
                 else
                   poll_loop R interaction_id poll_interval timeout start_time
                     (sleep poll_interval w2)))"

definition poll_until_complete ::
  "remote \<Rightarrow> string \<Rightarrow> int \<Rightarrow> int \<Rightarrow> world \<Rightarrow> (world \<times> (error + ResearchResult)) option"
where
  "poll_until_complete R interaction_id poll_interval timeout w =
     (case read_clock R w of
        (w0, start_time) \<Rightarrow> poll_loop R interaction_id poll_interval timeout start_time w0)"

text \<open>
  \<open>stream_research\<close>, from the stream that \<open>interactions.create\<close> returned on.
  The body of \<open>for chunk in stream\<close> is split along its blocks: the start block,
  the tracking of the event id, and the \<open>if\<close>/\<open>elif\<close> chain on the event type.
\<close>

definition on_start :: "Chunk \<Rightarrow> string option \<Rightarrow> error + (string option \<times> ResearchEvent list)" where
  "on_start chunk interaction_id =
     (if chunk_event_type chunk = ''interaction.start'' then
        (case chunk_interaction chunk of
           None \<Rightarrow> Inl (AttributeError ''interaction'')
         | Some interaction \<Rightarrow>
             Inr (Some (int_id interaction),
                  [\<lparr>ev_event_type = START,
                    ev_interaction_id = Some (int_id interaction),
                    ev_content = None,
                    ev_event_id = None\<rparr>]))
      else Inr (interaction_id, []))"

definition track_event_id :: "Chunk \<Rightarrow> string option \<Rightarrow> string option" where
  "track_event_id chunk last_event_id =
     (case chunk_event_id chunk of
        None \<Rightarrow> last_event_id
      | Some e \<Rightarrow> if e \<noteq> [] then Some e else last_event_id)"

text \<open>
  The block for \<open>content.delta\<close>: \<open>delta.type\<close> is read behind
  \<open>hasattr(chunk, "delta")\<close> alone, so a delta that holds \<open>None\<close> raises.
\<close>

definition on_delta ::
  "Chunk \<Rightarrow> string option \<Rightarrow> string option \<Rightarrow> error + ResearchEvent list"
where
  "on_delta chunk interaction_id last_event_id =
     (case chunk_delta chunk of
        Missing \<Rightarrow> Inr []
      | PyNone \<Rightarrow> Inl (AttributeError ''type'')
      | Val delta \<Rightarrow>
          if delta_type delta = ''text'' then
            Inr [\<lparr>ev_event_type = TEXT_DELTA,
                  ev_interaction_id = interaction_id,
                  ev_content = delta_text delta,
                  ev_event_id = last_event_id\<rparr>]
          else if delta_type delta = ''thought_summary'' then
            Inr [\<lparr>ev_event_type = THOUGHT,
                  ev_interaction_id = interaction_id,
                  ev_content = attr_or (delta_content_text delta) (delta_str delta),
                  ev_event_id = last_event_id\<rparr>]
          else Inr [])"

text \<open>
  The completion block: the final content from the chunk's own interaction, else one
  \<open>get_result\<close> call whose exception is swallowed.
\<close>

definition on_complete ::
  "remote \<Rightarrow> Chunk \<Rightarrow> string option \<Rightarrow> string option \<Rightarrow> world \<Rightarrow> world \<times> ResearchEvent list"
where
  "on_complete R chunk interaction_id last_event_id w =
     (let from_chunk =
            (case chunk_interaction chunk of
               None \<Rightarrow> None
             | Some interaction \<Rightarrow>
                 if int_outputs interaction \<noteq> [] then scan_text (rev (int_outputs interaction))
                 else None);
          (w', final_content) =
            (case (from_chunk, interaction_id) of
               (None, Some iid) \<Rightarrow>
                 if iid \<noteq> [] then
                   (case get_result R iid w of
                      (w1, Inl e) \<Rightarrow> (w1, None)
                    | (w1, Inr result) \<Rightarrow>
                        (w1, case res_content result of
                               Some c \<Rightarrow> if c \<noteq> [] then Some c else None
                             | None \<Rightarrow> None))
                 else (w, None)
             | _ \<Rightarrow> (w, from_chunk))
      in (w', [\<lparr>ev_event_type = COMPLETE,
                 ev_interaction_id = interaction_id,
                 ev_content = final_content,
                 ev_event_id = last_event_id\<rparr>]))"

definition on_error :: "Chunk \<Rightarrow> string option \<Rightarrow> string option \<Rightarrow> ResearchEvent list" where
  "on_error chunk interaction_id last_event_id =
     [\<lparr>ev_event_type = ERROR,
       ev_interaction_id = interaction_id,
       ev_content = Some (case chunk_error chunk of Some msg \<Rightarrow> msg | None \<Rightarrow> ''Unknown error''),
       ev_event_id = last_event_id\<rparr>]"

definition handle_chunk ::
  "remote \<Rightarrow> Chunk \<Rightarrow> string option \<Rightarrow> string option \<Rightarrow> world
     \<Rightarrow> world \<times> (error + ResearchEvent list)"
where
  "handle_chunk R chunk interaction_id last_event_id w =
     (if chunk_event_type chunk = ''content.delta'' then
        (w, on_delta chunk interaction_id last_event_id)
      else if chunk_event_type chunk = ''interaction.complete'' then
        (case on_complete R chunk interaction_id last_event_id w of
           (w', events) \<Rightarrow> (w', Inr events))
      else if chunk_event_type chunk = ''error'' then
        (w, Inr (on_error chunk interaction_id last_event_id))
      else (w, Inr []))"

text \<open>
  The loop over the stream. The result is the world, the events yielded in order, and
  the exception that ended the generator, if any: the events yielded before an exception
  stay yielded.
\<close>

fun stream_loop ::
  "remote \<Rightarrow> Chunk list \<Rightarrow> string option \<Rightarrow> string option \<Rightarrow> world
     \<Rightarrow> world \<times> ResearchEvent list \<times> error option"
where
  "stream_loop R [] interaction_id last_event_id w = (w, [], None)"
| "stream_loop R (chunk # rest) interaction_id last_event_id w =
     (case on_start chunk interaction_id of
        Inl e \<Rightarrow> (w, [], Some e)
      | Inr (interaction_id', started) \<Rightarrow>
          (let last_event_id' = track_event_id chunk last_event_id
           in case handle_chunk R chunk interaction_id' last_event_id' w of
                (w1, Inl e) \<Rightarrow> (w1, started, Some e)
              | (w1, Inr handled) \<Rightarrow>
                  (let (w2, later, err) = stream_loop R rest interaction_id' last_event_id' w1
                   in (w2, started @ handled @ later, err))))"

definition stream_research ::
  "remote \<Rightarrow> Chunk list \<Rightarrow> world \<Rightarrow> world \<times> ResearchEvent list \<times> error option"
where
  "stream_research R stream w = stream_loop R stream None None w"

text \<open>\<open>ask_followup\<close>.\<close>

definition AGENT_NAME :: string where
  "AGENT_NAME = ''deep-research-pro-preview-12-2025''"

definition create :: "remote \<Rightarrow> create_request \<Rightarrow> world \<Rightarrow> world \<times> (error + Interaction)" where
  "create R request w =
     (w\<lparr>created := created w @ [request]\<rparr>,
      case interactions_create R (length (created w)) request of
        Inl msg \<Rightarrow> Inl (RemoteError msg)
      | Inr interaction \<Rightarrow> Inr interaction)"

definition followup_text :: "Interaction \<Rightarrow> string" where
  "followup_text interaction =
     (if int_outputs interaction \<noteq> [] then
        (case scan_text (rev (int_outputs interaction)) of Some t \<Rightarrow> t | None \<Rightarrow> [])
      else [])"

definition ask_followup :: "remote \<Rightarrow> string \<Rightarrow> string \<Rightarrow> world \<Rightarrow> world \<times> (error + string)" where
  "ask_followup R previous_interaction_id question w =
     (case create R \<lparr>cr_input = question,
                     cr_agent = AGENT_NAME,
                     cr_previous_interaction_id = previous_interaction_id\<rparr> w of
        (w', Inl e) \<Rightarrow> (w', Inl e)
      | (w', Inr interaction) \<Rightarrow> (w', Inr (followup_text interaction)))"

section \<open>QuickSearchClient (src/core/client.py)\<close>

text \<open>
  Strings are byte lists here, so the two Japanese literals of the class are written as
  their UTF-8 bytes: \<open>SYSTEM_PROMPT_JA\<close>, and the heading that \<open>search_and_analyze\<close>
  puts before the URL list.
\<close>

definition NL :: string where
  "NL = [CHR 0x0A]"

definition SYSTEM_PROMPT_JA :: string where
  "SYSTEM_PROMPT_JA =
     [CHR 0xE5, CHR 0xBF, CHR 0x85, CHR 0xE3, CHR 0x81, CHR 0x9A, CHR 0xE6, CHR 0x97, CHR 0xA5,
      CHR 0xE6, CHR 0x9C, CHR 0xAC, CHR 0xE8, CHR 0xAA, CHR 0x9E, CHR 0xE3, CHR 0x81, CHR 0xA7,
      CHR 0xE5, CHR 0x9B, CHR 0x9E, CHR 0xE7, CHR 0xAD, CHR 0x94, CHR 0xE3, CHR 0x81, CHR 0x97,
      CHR 0xE3, CHR 0x81, CHR 0xA6, CHR 0xE3, CHR 0x81, CHR 0x8F, CHR 0xE3, CHR 0x81, CHR 0xA0,
      CHR 0xE3, CHR 0x81, CHR 0x95, CHR 0xE3, CHR 0x81, CHR 0x84, CHR 0xE3, CHR 0x80, CHR 0x82]"

definition REFERENCE_URL_HEADING :: string where
  "REFERENCE_URL_HEADING =
     [CHR 0xE5, CHR 0x8F, CHR 0x82, CHR 0xE8, CHR 0x80, CHR 0x83] @ ''URL:''"

definition build_prompt :: "string \<Rightarrow> string \<Rightarrow> string" where
  "build_prompt query language =
     (if language = ''ja'' then SYSTEM_PROMPT_JA @ NL @ NL @ query else query)"

text \<open>\<open>sep.join(parts)\<close>.\<close>

fun join :: "string \<Rightarrow> string list \<Rightarrow> string" where
  "join sep [] = []"
| "join sep [part] = part"
| "join sep (part # rest) = part @ sep @ join sep rest"

definition generate :: "remote \<Rightarrow> generate_request \<Rightarrow> world \<Rightarrow> world \<times> (string + Response)" where
  "generate R request w =
     (w\<lparr>generated := generated w @ [request]\<rparr>,
      generate_content R (length (generated w)) request)"

text \<open>\<open>response.text if response.text else ""\<close>.\<close>

definition response_content :: "Response \<Rightarrow> string" where
  "response_content response =
     (case resp_text response of None \<Rightarrow> [] | Some t \<Rightarrow> if t \<noteq> [] then t else [])"

text \<open>
  The extraction of the grounding metadata: \<open>quick_search\<close> and
  \<open>search_and_analyze\<close> hold the same block, line for line. Each \<open>for\<close> loop
  appends to its list. The block stands inside the \<open>try\<close>, so an exception in it
  ends the parsing and reaches the \<open>except\<close> branch.

  \<open>Citation(url=..., title=...)\<close>: \<open>url\<close> is declared \<open>str\<close>, so a uri that
  holds \<open>None\<close> is refused.
\<close>

definition new_Citation :: "Web \<Rightarrow> error + Citation" where
  "new_Citation web =
     (case attr_or (web_uri web) [] of
        None \<Rightarrow> Inl (ValidationError ''Citation'')
      | Some url \<Rightarrow> Inr \<lparr>cit_url = url, cit_title = web_title web\<rparr>)"

fun citations_loop :: "GroundingChunk list \<Rightarrow> Citation list \<Rightarrow> error + Citation list" where
  "citations_loop [] citations = Inr citations"
| "citations_loop (chunk # rest) citations =
     (case chunk_web chunk of
        None \<Rightarrow> citations_loop rest citations
      | Some web \<Rightarrow>
          (case new_Citation web of
             Inl e \<Rightarrow> Inl e
           | Inr citation \<Rightarrow> citations_loop rest (citations @ [citation])))"

text \<open>
  \<open>GroundingSupport(text=..., start_index=..., end_index=..., citation_indices=...)\<close>:
  the arguments are evaluated first, and \<open>list(support.grounding_chunk_indices)\<close>
  raises \<open>TypeError\<close> on \<open>None\<close>; then the model refuses \<open>None\<close> for its
  \<open>str\<close> and \<open>int\<close> fields.
\<close>

definition new_GroundingSupport :: "Support \<Rightarrow> Segment \<Rightarrow> error + GroundingSupport" where
  "new_GroundingSupport support segment =
     (case sup_grounding_chunk_indices support of
        PyNone \<Rightarrow> Inl (TypeError ''grounding_chunk_indices'')
      | indices \<Rightarrow>
          (case (attr_or (seg_text segment) [],
                 attr_or (seg_start_index segment) 0,
                 attr_or (seg_end_index segment) 0) of
             (Some t, Some start_index, Some end_index) \<Rightarrow>
               Inr \<lparr>gs_text = t,
                    gs_start_index = start_index,
                    gs_end_index = end_index,
                    gs_citation_indices = (case indices of Val is \<Rightarrow> is | _ \<Rightarrow> [])\<rparr>
           | _ \<Rightarrow> Inl (ValidationError ''GroundingSupport'')))"

fun supports_loop :: "Support list \<Rightarrow> GroundingSupport list \<Rightarrow> error + GroundingSupport list" where
  "supports_loop [] grounding_supports = Inr grounding_supports"
| "supports_loop (support # rest) grounding_supports =
     (case sup_segment support of
        None \<Rightarrow> supports_loop rest grounding_supports
      | Some segment \<Rightarrow>
          (case new_GroundingSupport support segment of
             Inl e \<Rightarrow> Inl e
           | Inr grounding_support \<Rightarrow>
               supports_loop rest (grounding_supports @ [grounding_support])))"

text \<open>
  The three reads of the metadata, each behind \<open>hasattr(...) and ...\<close>: a missing,
  \<open>None\<close> or empty attribute leaves the list empty.
\<close>

definition metadata_queries :: "GroundingMetadata \<Rightarrow> string list" where
  "metadata_queries metadata =
     (case gm_web_search_queries metadata of None \<Rightarrow> [] | Some queries \<Rightarrow> queries)"

definition metadata_citations :: "GroundingMetadata \<Rightarrow> error + Citation list" where
  "metadata_citations metadata =
     (case gm_grounding_chunks metadata of
        Val chunks \<Rightarrow> citations_loop chunks []
      | _ \<Rightarrow> Inr [])"

definition metadata_supports :: "GroundingMetadata \<Rightarrow> error + GroundingSupport list" where
  "metadata_supports metadata =
     (case gm_grounding_supports metadata of
        None \<Rightarrow> Inr []
      | Some supports \<Rightarrow> supports_loop supports [])"

text \<open>
  The body of the \<open>try\<close> after the call: the content, then the queries, the
  citations and the supports of the first candidate's metadata, in this order.
\<close>

definition grounded_result :: "string \<Rightarrow> string \<Rightarrow> Response \<Rightarrow> error + QuickSearchResult" where
  "grounded_result query model response =
     (let metadata =
            (case resp_candidates response of
               [] \<Rightarrow> None
             | candidate # _ \<Rightarrow> cand_grounding_metadata candidate)
      in case metadata of
           None \<Rightarrow>
             Inr \<lparr>qs_query = query,
                  qs_content = response_content response,
                  qs_citations = [],
                  qs_grounding_supports = [],
                  qs_search_queries = [],
                  qs_model = model,
                  qs_error = None\<rparr>
         | Some m \<Rightarrow>
             (case metadata_citations m of
                Inl e \<Rightarrow> Inl e
              | Inr citations \<Rightarrow>
                  (case metadata_supports m of
                     Inl e \<Rightarrow> Inl e
                   | Inr grounding_supports \<Rightarrow>
                       Inr \<lparr>qs_query = query,
                            qs_content = response_content response,
                            qs_citations = citations,
                            qs_grounding_supports = grounding_supports,
                            qs_search_queries = metadata_queries m,
                            qs_model = model,
                            qs_error = None\<rparr>)))"

text \<open>The \<open>except Exception as e\<close> branch of both operations, on \<open>str(e)\<close>.\<close>

definition failed_result :: "string \<Rightarrow> string \<Rightarrow> string \<Rightarrow> QuickSearchResult" where
  "failed_result query model msg =
     \<lparr>qs_query = query,
      qs_content = [],
      qs_citations = [],
      qs_grounding_supports = [],
      qs_search_queries = [],
      qs_model = model,
      qs_error = Some msg\<rparr>"

definition quick_search ::
  "remote \<Rightarrow> string \<Rightarrow> string \<Rightarrow> string \<Rightarrow> world \<Rightarrow> world \<times> QuickSearchResult"
where
  "quick_search R query model language w =
     (let prompt = build_prompt query language
      in case generate R \<lparr>gr_model = model, gr_contents = prompt, gr_tools = [GoogleSearch]\<rparr> w of
           (w', Inl msg) \<Rightarrow> (w', failed_result query model msg)
         | (w', Inr response) \<Rightarrow>
             (case grounded_result query model response of
                Inl e \<Rightarrow> (w', failed_result query model (exception_text R e))
              | Inr result \<Rightarrow> (w', result)))"

text \<open>
  \<open>UrlMetadata(url=..., status=..., title=None)\<close>: both fields are declared
  \<open>str\<close>, so a \<open>retrieved_url\<close> or a status that holds \<open>None\<close> is refused.
\<close>

definition new_UrlMetadata :: "UrlMeta \<Rightarrow> error + UrlMetadata" where
  "new_UrlMetadata url_meta =
     (case (attr_or (umeta_retrieved_url url_meta) [],
            attr_or (umeta_url_retrieval_status url_meta) ''unknown'') of
        (Some url, Some status) \<Rightarrow> Inr \<lparr>um_url = url, um_status = status, um_title = None\<rparr>
      | _ \<Rightarrow> Inl (ValidationError ''UrlMetadata''))"

fun url_metadata_loop :: "UrlMeta list \<Rightarrow> UrlMetadata list \<Rightarrow> error + UrlMetadata list" where
  "url_metadata_loop [] url_metadata = Inr url_metadata"
| "url_metadata_loop (url_meta # rest) url_metadata =
     (case new_UrlMetadata url_meta of
        Inl e \<Rightarrow> Inl e
      | Inr entry \<Rightarrow> url_metadata_loop rest (url_metadata @ [entry]))"

definition response_url_metadata :: "Response \<Rightarrow> error + UrlMetadata list" where
  "response_url_metadata response =
     (case resp_candidates response of
        [] \<Rightarrow> Inr []
      | candidate # _ \<Rightarrow>
          (case cand_url_context_metadata candidate of
             None \<Rightarrow> Inr []
           | Some metadata \<Rightarrow>
               (case ucm_url_metadata metadata of
                  None \<Rightarrow> Inr []
                | Some metas \<Rightarrow> url_metadata_loop metas [])))"

definition analyze_urls ::
  "remote \<Rightarrow> string list \<Rightarrow> string \<Rightarrow> string \<Rightarrow> string \<Rightarrow> world \<Rightarrow> world \<times> UrlAnalysisResult"
where
  "analyze_urls R urls query model language w =
     (if length urls > 20 then
        (w, \<lparr>ua_urls = urls,
              ua_query = query,
              ua_content = [],
              ua_url_metadata = [],
              ua_model = model,
              ua_error = Some ''Maximum 20 URLs allowed per request''\<rparr>)
      else
        (let url_list = join NL urls;
             full_prompt = build_prompt (query @ NL @ NL @ ''URLs:'' @ NL @ url_list) language;
             failed = (\<lambda>msg. \<lparr>ua_urls = urls,
                                ua_query = query,
                                ua_content = [],
                                ua_url_metadata = [],
                                ua_model = model,
                                ua_error = Some msg\<rparr>)
         in case generate R \<lparr>gr_model = model, gr_contents = full_prompt,
                             gr_tools = [UrlContext]\<rparr> w of
              (w', Inl msg) \<Rightarrow> (w', failed msg)
            | (w', Inr response) \<Rightarrow>
                (case response_url_metadata response of
                   Inl e \<Rightarrow> (w', failed (exception_text R e))
                 | Inr url_metadata \<Rightarrow>
                     (w', \<lparr>ua_urls = urls,
                            ua_query = query,
                            ua_content = response_content response,
                            ua_url_metadata = url_metadata,
                            ua_model = model,
                            ua_error = None\<rparr>))))"

text \<open>
  The prompt of \<open>search_and_analyze\<close>: the URL list is appended under its heading
  when \<open>urls\<close> is truthy (neither \<open>None\<close> nor empty).
\<close>

definition search_and_analyze_prompt :: "string \<Rightarrow> string list option \<Rightarrow> string \<Rightarrow> string" where
  "search_and_analyze_prompt query urls language =
     (let prompt = build_prompt query language
      in case urls of
           None \<Rightarrow> prompt
         | Some us \<Rightarrow>
             if us \<noteq> [] then prompt @ NL @ NL @ REFERENCE_URL_HEADING @ NL @ join NL us
             else prompt)"

definition search_and_analyze ::
  "remote \<Rightarrow> string \<Rightarrow> string list option \<Rightarrow> string \<Rightarrow> string \<Rightarrow> world
     \<Rightarrow> world \<times> QuickSearchResult"
where
  "search_and_analyze R query urls model language w =
     (let prompt = search_and_analyze_prompt query urls language
      in case generate R \<lparr>gr_model = model, gr_contents = prompt,
                          gr_tools = [GoogleSearch, UrlContext]\<rparr> w of
           (w', Inl msg) \<Rightarrow> (w', failed_result query model msg)
         | (w', Inr response) \<Rightarrow>
             (case grounded_result query model response of
                Inl e \<Rightarrow> (w', failed_result query model (exception_text R e))
              | Inr result \<Rightarrow> (w', result)))"

section \<open>Notions used in the statements\<close>

text \<open>
  The non-empty texts of a list of outputs, in the order of the outputs; the grounding
  chunks of one output; the web uri of a chunk, \<open>None\<close> when the chunk has no web
  source or the web source holds no uri.
\<close>

definition nonempty_texts :: "Output list \<Rightarrow> string list" where
  "nonempty_texts outputs = filter (\<lambda>t. t \<noteq> []) (List.map_filter out_text outputs)"

definition output_chunks :: "Output \<Rightarrow> GroundingChunk list" where
  "output_chunks output =
     (case out_grounding_metadata output of
        None \<Rightarrow> []
      | Some metadata \<Rightarrow> (case gm_grounding_chunks metadata of Val chunks \<Rightarrow> chunks | _ \<Rightarrow> []))"

definition chunk_uri :: "GroundingChunk \<Rightarrow> string option" where
  "chunk_uri chunk =
     (case chunk_web chunk of
        None \<Rightarrow> None
      | Some web \<Rightarrow> (case web_uri web of Val uri \<Rightarrow> Some uri | _ \<Rightarrow> None))"






text \<open>
  The first non-empty text of a list of outputs in the order of the list, the empty
  string when there is none.
\<close>

definition first_nonempty_text :: "Output list \<Rightarrow> string" where
  "first_nonempty_text outputs = (case nonempty_texts outputs of [] \<Rightarrow> [] | t # _ \<Rightarrow> t)"

text \<open>
  The shape of an event sequence, on the types of its events: nothing follows the first
  \<open>complete\<close> or \<open>error\<close>, and \<open>start\<close> stands at most at the head. The same
  for a provider stream: a chunk is a start chunk or a final chunk by its event type, and
  a stream stops at its first final chunk.
\<close>

fun ends_at_final :: "ResearchEventType list \<Rightarrow> bool" where
  "ends_at_final [] = True"
| "ends_at_final (t # ts) = (if t = COMPLETE \<or> t = ERROR then ts = [] else ends_at_final ts)"

definition well_formed_events :: "ResearchEventType list \<Rightarrow> bool" where
  "well_formed_events ts = (START \<notin> set (tl ts) \<and> ends_at_final ts)"

definition start_chunk :: "Chunk \<Rightarrow> bool" where
  "start_chunk chunk = (chunk_event_type chunk = ''interaction.start'')"

definition final_chunk :: "Chunk \<Rightarrow> bool" where
  "final_chunk chunk =
     (chunk_event_type chunk = ''interaction.complete'' \<or> chunk_event_type chunk = ''error'')"

fun stops_at_final :: "Chunk list \<Rightarrow> bool" where
  "stops_at_final [] = True"
| "stops_at_final (chunk # rest) = (if final_chunk chunk then rest = [] else stops_at_final rest)"

definition event_types :: "world \<times> ResearchEvent list \<times> error option \<Rightarrow> ResearchEventType list" where
  "event_types run = map ev_event_type (fst (snd run))"

text \<open>
  The run of \<open>poll_until_complete\<close>, told from the world \<open>w\<close> it is called in.
  \<open>poll R interaction_id w k\<close> is what the k-th call of \<open>get_status\<close> in the loop
  returns (k from 0): the service has answered k fetches of the loop before it.
  \<open>elapsed R w k\<close> is the value of \<open>elapsed\<close> that the loop computes after that
  call: the clock reading after the k-th poll minus the reading at the start. A poll is
  pending when it returns a status that is neither completed, failed nor cancelled.
  \<open>at_poll\<close> is the world right after the k-th poll: k+1 fetches, k sleeps, and the
  k clock readings of the rounds before besides the one at the start.
  \<open>after_rounds\<close> is the world after k full rounds of the loop (fetch, clock reading,
  sleep). \<open>raises_timeout\<close> holds of a run that ends by raising \<open>TimeoutError\<close>.
\<close>

definition after_rounds :: "string \<Rightarrow> int \<Rightarrow> nat \<Rightarrow> world \<Rightarrow> world" where
  "after_rounds interaction_id poll_interval k w =
     w\<lparr>fetched := fetched w @ replicate k interaction_id,
       clock_reads := clock_reads w + k,
       slept := slept w @ replicate k poll_interval\<rparr>"

definition pending :: "error + ResearchStatus \<Rightarrow> bool" where
  "pending observed = (case observed of Inl e \<Rightarrow> False | Inr status \<Rightarrow> st_status status = IN_PROGRESS)"

definition poll :: "remote \<Rightarrow> string \<Rightarrow> world \<Rightarrow> nat \<Rightarrow> error + ResearchStatus" where
  "poll R interaction_id w k =
     snd (get_status R interaction_id (w\<lparr>fetched := fetched w @ replicate k interaction_id\<rparr>))"

definition elapsed :: "remote \<Rightarrow> world \<Rightarrow> nat \<Rightarrow> real" where
  "elapsed R w k = time_time R (clock_reads w + Suc k) - time_time R (clock_reads w)"

definition at_poll :: "string \<Rightarrow> int \<Rightarrow> nat \<Rightarrow> world \<Rightarrow> world" where
  "at_poll interaction_id poll_interval k w =
     w\<lparr>fetched := fetched w @ replicate (Suc k) interaction_id,
       clock_reads := clock_reads w + Suc k,
       slept := slept w @ replicate k poll_interval\<rparr>"

definition raises_timeout :: "(world \<times> (error + ResearchResult)) option \<Rightarrow> bool" where
  "raises_timeout run =
     (case run of Some (w, Inl (TimeoutError timeout interaction_id)) \<Rightarrow> True | _ \<Rightarrow> False)"

section \<open>Concrete inputs\<close>

text \<open>
  The world before any effect, and a service that fails every call; the clock of
  \<open>unreachable\<close> advances by one second per reading, and every exception of the
  parsing has the text \<open>invalid\<close>.
\<close>

definition world0 :: world where
  "world0 = \<lparr>fetched = [], created = [], generated = [], clock_reads = 0, slept = []\<rparr>"

definition unreachable :: remote where
  "unreachable =
     \<lparr>interactions_get = (\<lambda>n interaction_id. Inl ''unavailable''),
      interactions_create = (\<lambda>n request. Inl ''unavailable''),
      generate_content = (\<lambda>n request. Inl ''unavailable''),
      time_time = (\<lambda>n. real n),
      exception_text = (\<lambda>e. ''invalid'')\<rparr>"

text \<open>A service that answers every \<open>get\<close> and every \<open>create\<close> with one interaction.\<close>

definition serving :: "Interaction \<Rightarrow> remote" where
  "serving interaction =
     unreachable\<lparr>interactions_get := \<lambda>n interaction_id. Inr interaction,
                 interactions_create := \<lambda>n request. Inr interaction\<rparr>"



definition text_output :: "string option \<Rightarrow> Output" where
  "text_output t = \<lparr>out_text = t, out_grounding_metadata = None\<rparr>"

definition two_answers :: Interaction where
  "two_answers =
     \<lparr>int_id = ''h2'', int_status = ''completed'',
      int_outputs = [text_output (Some ''first''), text_output (Some ''second'')],
      int_error = None\<rparr>"

definition three_outputs :: Interaction where
  "three_outputs =
     \<lparr>int_id = ''h1'', int_status = ''completed'',
      int_outputs = [text_output (Some ''ignored-older''), text_output (Some ''final''), text_output None],
      int_error = None\<rparr>"

definition ungrounded :: Interaction where
  "ungrounded =
     \<lparr>int_id = ''h1'', int_status = ''completed'',
      int_outputs =
        [text_output (Some ''report''),
         \<lparr>out_text = None,
          out_grounding_metadata =
            Some \<lparr>gm_web_search_queries = None,
                  gm_grounding_chunks = Val [\<lparr>chunk_web = None\<rparr>,
                     \<lparr>chunk_web = Some \<lparr>web_uri = Missing, web_title = Some ''t''\<rparr>\<rparr>],
                  gm_grounding_supports = None\<rparr>\<rparr>],
      int_error = None\<rparr>"

text \<open>Chunks: one with an event type only, a text delta, and a start chunk with its handle.\<close>

definition plain_chunk :: "string \<Rightarrow> Chunk" where
  "plain_chunk event_type =
     \<lparr>chunk_event_type = event_type, chunk_interaction = None, chunk_event_id = None,
      chunk_delta = Missing, chunk_error = None\<rparr>"

definition text_chunk :: "string \<Rightarrow> Chunk" where
  "text_chunk t =
     (plain_chunk ''content.delta'')
       \<lparr>chunk_delta := Val \<lparr>delta_type = ''text'', delta_text = Some t,
                            delta_content_text = Missing, delta_str = []\<rparr>\<rparr>"

definition started_chunk :: "string \<Rightarrow> Chunk" where
  "started_chunk h =
     (plain_chunk ''interaction.start'')
       \<lparr>chunk_interaction := Some \<lparr>int_id = h, int_status = ''in_progress'',
                                   int_outputs = [], int_error = None\<rparr>\<rparr>"

text \<open>
  An interaction in progress, a failed one, and a service that reports the first for its
  first \<open>n\<close> fetches and a given interaction from then on.
\<close>

definition running :: Interaction where
  "running = \<lparr>int_id = ''h1'', int_status = ''in_progress'', int_outputs = [], int_error = None\<rparr>"

definition broken :: Interaction where
  "broken = \<lparr>int_id = ''h1'', int_status = ''failed'', int_outputs = [], int_error = Some ''boom''\<rparr>"

definition ends_after :: "nat \<Rightarrow> Interaction \<Rightarrow> remote" where
  "ends_after n final =
     unreachable\<lparr>interactions_get := \<lambda>i interaction_id. Inr (if i < n then running else final)\<rparr>"

text \<open>
  Objects in which a present attribute holds \<open>None\<close>: a completed interaction whose
  output has grounding metadata with \<open>grounding_chunks = None\<close>; a completed
  interaction with a text and a web source whose uri is \<open>None\<close>; and a response with
  one web source and one support whose segment has \<open>start_index = None\<close>.
\<close>

definition none_chunks :: Interaction where
  "none_chunks =
     \<lparr>int_id = ''h1'', int_status = ''completed'',
      int_outputs =
        [\<lparr>out_text = Some ''report'',
          out_grounding_metadata =
            Some \<lparr>gm_web_search_queries = None,
                  gm_grounding_chunks = PyNone,
                  gm_grounding_supports = None\<rparr>\<rparr>],
      int_error = None\<rparr>"

definition none_uri :: Interaction where
  "none_uri =
     \<lparr>int_id = ''h1'', int_status = ''completed'',
      int_outputs =
        [text_output (Some ''final''),
         \<lparr>out_text = None,
          out_grounding_metadata =
            Some \<lparr>gm_web_search_queries = None,
                  gm_grounding_chunks =
                    Val [\<lparr>chunk_web = Some \<lparr>web_uri = PyNone, web_title = Some ''t''\<rparr>\<rparr>],
                  gm_grounding_supports = None\<rparr>\<rparr>],
      int_error = None\<rparr>"


section \<open>The status mapping\<close>

lemma dict_get_status_map:
  "dict_get status_map s IN_PROGRESS =
     (if s = ''in_progress'' then IN_PROGRESS
      else if s = ''completed'' then COMPLETED
      else if s = ''failed'' then FAILED
      else if s = ''cancelled'' then CANCELLED
      else IN_PROGRESS)"
  by (simp add: dict_get_def status_map_def)

lemma status_value_dict_get:
  "status_value (dict_get status_map s IN_PROGRESS) =
     (if s \<in> {''in_progress'', ''completed'', ''failed'', ''cancelled''} then s
      else ''in_progress'')"
  by (simp add: dict_get_status_map)

lemma fetch_Inr:
  "interactions_get R (length (fetched w)) interaction_id = Inr interaction \<Longrightarrow>
   fetch R interaction_id w = (w\<lparr>fetched := fetched w @ [interaction_id]\<rparr>, Inr interaction)"
  by (simp add: fetch_def)

lemma fetch_Inl:
  "interactions_get R (length (fetched w)) interaction_id = Inl msg \<Longrightarrow>
   fetch R interaction_id w = (w\<lparr>fetched := fetched w @ [interaction_id]\<rparr>, Inl (RemoteError msg))"
  by (simp add: fetch_def)

lemma get_status_Inr:
  "interactions_get R (length (fetched w)) interaction_id = Inr interaction \<Longrightarrow>
   get_status R interaction_id w =
     (w\<lparr>fetched := fetched w @ [interaction_id]\<rparr>,
      Inr \<lparr>st_interaction_id = interaction_id,
           st_status = dict_get status_map (int_status interaction) IN_PROGRESS,
           st_error = str_if_truthy (int_error interaction)\<rparr>)"
  by (simp add: get_status_def fetch_Inr)

text \<open>
  C7. Whenever the fetch of \<open>get_status\<close> succeeds, the status it returns is the
  member named by the vendor's status string when that string is one of
  \<open>in_progress\<close>, \<open>completed\<close>, \<open>failed\<close>, \<open>cancelled\<close> (the string value of
  the member is the vendor's string itself), and it is \<open>IN_PROGRESS\<close> for every
  other string.
\<close>

theorem get_status_canonical:
  assumes "interactions_get R (length (fetched w)) interaction_id = Inr interaction"
  shows "\<exists>st. snd (get_status R interaction_id w) = Inr st \<and>
           st_interaction_id st = interaction_id \<and>
           status_value (st_status st) =
             (if int_status interaction \<in> {''in_progress'', ''completed'', ''failed'', ''cancelled''}
              then int_status interaction else ''in_progress'') \<and>
           (int_status interaction \<notin> {''in_progress'', ''completed'', ''failed'', ''cancelled''}
              \<longrightarrow> st_status st = IN_PROGRESS)"
  using assms by (simp add: get_status_Inr status_value_dict_get dict_get_status_map)

theorem get_status_canonical_witness:
  "\<exists>st. snd (get_status
              (unreachable\<lparr>interactions_get := \<lambda>n h. Inr \<lparr>int_id = h, int_status = ''queued'',
                                                            int_outputs = [], int_error = None\<rparr>\<rparr>)
              ''h1'' world0) = Inr st \<and>
        st_interaction_id st = ''h1'' \<and>
        status_value (st_status st) = ''in_progress'' \<and>
        st_status st = IN_PROGRESS"
  using get_status_canonical
    [of "unreachable\<lparr>interactions_get := \<lambda>n h. Inr \<lparr>int_id = h, int_status = ''queued'',
                                                      int_outputs = [], int_error = None\<rparr>\<rparr>"
        world0 "''h1''"
        "\<lparr>int_id = ''h1'', int_status = ''queued'', int_outputs = [], int_error = None\<rparr>"]
  by simp

section \<open>The grounded-answer operations\<close>

text \<open>
  C3. For every list of more than 20 URLs, \<open>analyze_urls\<close> returns a result (its type
  has no exception) whose error is the message naming the limit of 20 URLs, whose content
  and URL metadata are empty, and it leaves the world as it found it: no request is
  added to the log of remote calls, whatever the service is.
\<close>

theorem analyze_urls_over_limit:
  assumes "20 < length urls"
  shows "analyze_urls R urls query model language w =
           (w, \<lparr>ua_urls = urls,
                 ua_query = query,
                 ua_content = [],
                 ua_url_metadata = [],
                 ua_model = model,
                 ua_error = Some ''Maximum 20 URLs allowed per request''\<rparr>)"
  using assms by (simp add: analyze_urls_def)

theorem analyze_urls_over_limit_witness:
  "20 < length (replicate 21 ''https://example.com/a'') \<and>
   analyze_urls unreachable (replicate 21 ''https://example.com/a'') ''compare'' ''m'' ''ja'' world0 =
     (world0, \<lparr>ua_urls = replicate 21 ''https://example.com/a'',
                ua_query = ''compare'',
                ua_content = [],
                ua_url_metadata = [],
                ua_model = ''m'',
                ua_error = Some ''Maximum 20 URLs allowed per request''\<rparr>)"
  using analyze_urls_over_limit
    [of "replicate 21 ''https://example.com/a''" unreachable "''compare''" "''m''" "''ja''" world0]
  by simp

text \<open>
  C5. For every query, model and language, when the \<open>generate_content\<close> call of
  \<open>quick_search\<close> raises an exception with message \<open>msg\<close>, \<open>quick_search\<close>
  returns the result with empty content, no citations, no grounding supports, no search
  queries, and \<open>msg\<close> as its error.
\<close>

theorem quick_search_remote_failure:
  assumes "generate_content R (length (generated w))
             \<lparr>gr_model = model, gr_contents = build_prompt query language,
              gr_tools = [GoogleSearch]\<rparr> = Inl msg"
  shows "snd (quick_search R query model language w) =
           \<lparr>qs_query = query,
            qs_content = [],
            qs_citations = [],
            qs_grounding_supports = [],
            qs_search_queries = [],
            qs_model = model,
            qs_error = Some msg\<rparr>"
  using assms by (simp add: quick_search_def generate_def failed_result_def)

theorem quick_search_remote_failure_witness:
  "snd (quick_search unreachable ''news'' ''gemini-3-flash-preview'' ''ja'' world0) =
     \<lparr>qs_query = ''news'',
      qs_content = [],
      qs_citations = [],
      qs_grounding_supports = [],
      qs_search_queries = [],
      qs_model = ''gemini-3-flash-preview'',
      qs_error = Some ''unavailable''\<rparr>"
  using quick_search_remote_failure
    [of unreachable world0 "''gemini-3-flash-preview''" "''news''" "''ja''" "''unavailable''"]
  by (simp add: unreachable_def)

lemma grounded_result_echo:
  "grounded_result query model response = Inr result \<Longrightarrow>
   qs_query result = query \<and> qs_model result = model"
  by (auto simp: grounded_result_def Let_def split: option.splits sum.splits)

text \<open>
  C9. Whatever the service answers (a response or an exception) and however many URLs
  are given, the result of \<open>quick_search\<close>, \<open>analyze_urls\<close> and
  \<open>search_and_analyze\<close> carries the query and the model of the call, and the result
  of \<open>analyze_urls\<close> carries the URL list of the call.
\<close>

theorem results_echo_inputs:
  "qs_query (snd (quick_search R query model language w)) = query \<and>
   qs_model (snd (quick_search R query model language w)) = model \<and>
   ua_urls (snd (analyze_urls R urls query model language w)) = urls \<and>
   ua_query (snd (analyze_urls R urls query model language w)) = query \<and>
   ua_model (snd (analyze_urls R urls query model language w)) = model \<and>
   qs_query (snd (search_and_analyze R query opt_urls model language w)) = query \<and>
   qs_model (snd (search_and_analyze R query opt_urls model language w)) = model"
proof -
  have quick: "qs_query (snd (quick_search R query model language w)) = query \<and>
      qs_model (snd (quick_search R query model language w)) = model"
    by (auto simp: quick_search_def generate_def failed_result_def Let_def
          dest: grounded_result_echo split: sum.split)
  have urls: "ua_urls (snd (analyze_urls R urls query model language w)) = urls \<and>
      ua_query (snd (analyze_urls R urls query model language w)) = query \<and>
      ua_model (snd (analyze_urls R urls query model language w)) = model"
    by (simp add: analyze_urls_def generate_def Let_def split: sum.split)
  have both: "qs_query (snd (search_and_analyze R query opt_urls model language w)) = query \<and>
      qs_model (snd (search_and_analyze R query opt_urls model language w)) = model"
    by (auto simp: search_and_analyze_def generate_def failed_result_def Let_def
          dest: grounded_result_echo split: sum.split)
  from quick urls both show ?thesis by simp
qed

section \<open>The result of a research task\<close>

lemma nonempty_texts_Nil: "nonempty_texts [] = []"
  by (simp add: nonempty_texts_def)

lemma nonempty_texts_Cons:
  "nonempty_texts (output # rest) =
     (case out_text output of
        None \<Rightarrow> nonempty_texts rest
      | Some t \<Rightarrow> if t \<noteq> [] then t # nonempty_texts rest else nonempty_texts rest)"
  by (simp add: nonempty_texts_def split: option.split)

lemma nonempty_texts_append:
  "nonempty_texts (xs @ ys) = nonempty_texts xs @ nonempty_texts ys"
  by (simp add: nonempty_texts_def List.map_filter_def)

lemma nonempty_texts_rev: "nonempty_texts (rev outputs) = rev (nonempty_texts outputs)"
  by (induction outputs)
     (simp_all add: nonempty_texts_Nil nonempty_texts_append nonempty_texts_Cons split: option.split)

lemma scan_text_first:
  "scan_text outputs = (case nonempty_texts outputs of [] \<Rightarrow> None | t # _ \<Rightarrow> Some t)"
  by (induction outputs) (simp_all add: nonempty_texts_Nil nonempty_texts_Cons split: option.split)

lemma scan_text_rev_last:
  "scan_text (rev outputs) =
     (if nonempty_texts outputs = [] then None else Some (last (nonempty_texts outputs)))"
proof (cases "nonempty_texts outputs = []")
  case True
  then show ?thesis by (simp add: scan_text_first nonempty_texts_rev)
next
  case False
  then obtain t ts where "rev (nonempty_texts outputs) = t # ts"
    by (cases "rev (nonempty_texts outputs)") auto
  moreover from this have "last (nonempty_texts outputs) = t"
    by (metis last_rev list.sel(1) rev_rev_ident hd_rev)
  ultimately show ?thesis using False by (simp add: scan_text_first nonempty_texts_rev)
qed

lemma get_result_Inr:
  "interactions_get R (length (fetched w)) interaction_id = Inr interaction \<Longrightarrow>
   get_result R interaction_id w =
     (w\<lparr>fetched := fetched w @ [interaction_id]\<rparr>, result_of interaction_id interaction)"
  by (simp add: get_result_def fetch_Inr)

lemma status_completed_iff:
  "dict_get status_map s IN_PROGRESS = COMPLETED \<longleftrightarrow> s = ''completed''"
  by (simp add: dict_get_status_map)

lemma new_ResearchResult_fields:
  assumes "new_ResearchResult interaction_id status content citations err = Inr result"
  shows "res_status result = status" and "res_content result = content"
    and "citations = None \<Longrightarrow> res_citations result = None"
  using assms by (auto simp: new_ResearchResult_def split: option.splits)

text \<open>
  What \<open>get_result\<close> returns when it returns: the content is the last non-empty text
  of a completed interaction, and an interaction that is not completed has neither
  content nor citations. An interaction that is not completed always gets its result.
\<close>

lemma get_result_returned:
  assumes "interactions_get R (length (fetched w)) interaction_id = Inr interaction"
    and "snd (get_result R interaction_id w) = Inr result"
  shows "int_status interaction = ''completed'' \<Longrightarrow>
           res_content result =
             (if nonempty_texts (int_outputs interaction) = [] then None
              else Some (last (nonempty_texts (int_outputs interaction))))"
    and "int_status interaction \<noteq> ''completed'' \<Longrightarrow>
           res_content result = None \<and> res_citations result = None"
proof -
  from assms have r: "result_of interaction_id interaction = Inr result"
    by (simp add: get_result_Inr)
  show "res_content result =
       (if nonempty_texts (int_outputs interaction) = [] then None
        else Some (last (nonempty_texts (int_outputs interaction))))"
    if "int_status interaction = ''completed''"
  proof (cases "int_outputs interaction = []")
    case True
    with r that show ?thesis
      by (auto simp: result_of_def Let_def status_completed_iff nonempty_texts_Nil
            dest: new_ResearchResult_fields(2))
  next
    case False
    with r that show ?thesis
      by (auto simp: result_of_def Let_def status_completed_iff scan_text_rev_last
            dest: new_ResearchResult_fields(2) split: sum.splits)
  qed
  show "res_content result = None \<and> res_citations result = None"
    if "int_status interaction \<noteq> ''completed''"
    using r that
    by (auto simp: result_of_def Let_def status_completed_iff
          dest: new_ResearchResult_fields(2) new_ResearchResult_fields(3))
qed

lemma get_result_not_completed:
  assumes "interactions_get R (length (fetched w)) interaction_id = Inr interaction"
    and "int_status interaction \<noteq> ''completed''"
  shows "snd (get_result R interaction_id w) =
           Inr \<lparr>res_interaction_id = interaction_id,
                res_status = dict_get status_map (int_status interaction) IN_PROGRESS,
                res_content = None,
                res_citations = None,
                res_error = str_if_truthy (int_error interaction)\<rparr>"
  using assms
  by (simp add: get_result_Inr result_of_def Let_def status_completed_iff new_ResearchResult_def)

lemma extract_citations_not_empty: "extract_citations interaction \<noteq> Inr (Some [])"
  by (simp add: extract_citations_def split: sum.split)

text \<open>
  C4. The claim holds of every result that \<open>get_result\<close> returns
  (\<open>get_result_returned\<close>), but \<open>get_result\<close> does not return for every fetched
  interaction. For the completed interaction \<open>none_chunks\<close>, whose last non-empty text
  is \<open>report\<close>, the extraction of the citations iterates the \<open>None\<close> that
  \<open>grounding_chunks\<close> holds, and \<open>get_result\<close> raises \<open>TypeError\<close>. For the
  completed interaction \<open>none_uri\<close>, whose last non-empty text is \<open>final\<close>, the
  extraction appends the \<open>None\<close> uri, the model \<open>ResearchResult\<close> refuses the
  list, and \<open>get_result\<close> raises \<open>ValidationError\<close>. In both the content is lost.
\<close>

theorem get_result_content_lost:
  "int_status none_chunks = ''completed'' \<and>
   nonempty_texts (int_outputs none_chunks) = [''report''] \<and>
   snd (get_result (serving none_chunks) ''h1'' world0) = Inl (TypeError ''grounding_chunks'') \<and>
   int_status none_uri = ''completed'' \<and>
   nonempty_texts (int_outputs none_uri) = [''final''] \<and>
   snd (get_result (serving none_uri) ''h1'' world0) = Inl (ValidationError ''ResearchResult'')"
  by (simp add: none_chunks_def none_uri_def text_output_def nonempty_texts_Cons
        nonempty_texts_Nil serving_def get_result_def fetch_def result_of_def Let_def
        dict_get_status_map extract_citations_def append_output_uris_def append_chunk_uri_def
        new_ResearchResult_def)

text \<open>
  C10. The completed interaction \<open>ungrounded\<close> holds grounding chunks but none with a
  web uri, and \<open>get_result\<close> returns citations \<open>None\<close> for it, as the claim says.
  The completed interaction \<open>none_chunks\<close> holds no grounding chunk at all, its
  \<open>grounding_chunks\<close> being \<open>None\<close>; \<open>_extract_citations\<close> passes the
  \<open>hasattr\<close> test, iterates the \<open>None\<close>, and \<open>get_result\<close> raises
  \<open>TypeError\<close> instead of returning citations \<open>None\<close>.
\<close>

theorem get_result_raises_without_citations:
  "int_status ungrounded = ''completed'' \<and>
   List.map_filter chunk_uri (concat (map output_chunks (int_outputs ungrounded))) = [] \<and>
   snd (get_result (serving ungrounded) ''h1'' world0) =
     Inr \<lparr>res_interaction_id = ''h1'', res_status = COMPLETED, res_content = Some ''report'',
          res_citations = None, res_error = None\<rparr> \<and>
   int_status none_chunks = ''completed'' \<and>
   List.map_filter chunk_uri (concat (map output_chunks (int_outputs none_chunks))) = [] \<and>
   snd (get_result (serving none_chunks) ''h1'' world0) = Inl (TypeError ''grounding_chunks'')"
  by (simp add: ungrounded_def none_chunks_def text_output_def output_chunks_def chunk_uri_def
        serving_def get_result_def fetch_def result_of_def Let_def dict_get_status_map
        str_if_truthy_def extract_citations_def append_output_uris_def append_chunk_uri_def
        new_ResearchResult_def)

section \<open>Follow-up questions\<close>

lemma create_Inr:
  "interactions_create R (length (created w)) request = Inr interaction \<Longrightarrow>
   create R request w = (w\<lparr>created := created w @ [request]\<rparr>, Inr interaction)"
  by (simp add: create_def)

text \<open>
  C8, as stated: \<open>ask_followup\<close> returns the first non-empty text of the response's
  outputs. It does not: for a response with the outputs \<open>first\<close>, \<open>second\<close> it
  returns \<open>second\<close>.
\<close>

theorem ask_followup_first_text_counterexample:
  "snd (ask_followup (serving two_answers) ''h1'' ''why?'' world0) = Inr ''second'' \<and>
   first_nonempty_text (int_outputs two_answers) = ''first'' \<and>
   snd (ask_followup (serving two_answers) ''h1'' ''why?'' world0) \<noteq>
     Inr (first_nonempty_text (int_outputs two_answers))"
  by (simp add: ask_followup_def create_def serving_def unreachable_def world0_def followup_text_def
        two_answers_def text_output_def first_nonempty_text_def nonempty_texts_Cons nonempty_texts_Nil)

text \<open>
  C8, amended. Whenever the \<open>create\<close> call succeeds, \<open>ask_followup\<close> returns the
  last non-empty text of the response's outputs (the first one met when the outputs are
  scanned newest-first), and the empty string when the outputs are empty or none has a
  non-empty text.
\<close>

theorem ask_followup_last_text:
  assumes "interactions_create R (length (created w))
             \<lparr>cr_input = question, cr_agent = AGENT_NAME,
              cr_previous_interaction_id = previous_interaction_id\<rparr> = Inr interaction"
  shows "snd (ask_followup R previous_interaction_id question w) =
           Inr (if nonempty_texts (int_outputs interaction) = [] then []
                else last (nonempty_texts (int_outputs interaction)))"
  using assms
  by (cases "int_outputs interaction = []")
     (simp_all add: ask_followup_def create_Inr followup_text_def scan_text_rev_last nonempty_texts_Nil)

theorem ask_followup_last_text_witness:
  "snd (ask_followup (serving two_answers) ''h1'' ''why?'' world0) = Inr ''second''"
  using ask_followup_last_text [of "serving two_answers" world0 "''why?''" "''h1''" two_answers]
  by (simp add: serving_def two_answers_def text_output_def nonempty_texts_Cons nonempty_texts_Nil)

section \<open>Citations of a grounded answer\<close>









section \<open>The event sequence of a stream\<close>

lemma stream_loop_events:
  "fst (snd (stream_loop R (chunk # rest) interaction_id last_event_id w)) =
     (case on_start chunk interaction_id of
        Inl e \<Rightarrow> []
      | Inr (interaction_id', started) \<Rightarrow>
          (case handle_chunk R chunk interaction_id' (track_event_id chunk last_event_id) w of
             (w1, Inl e) \<Rightarrow> started
           | (w1, Inr handled) \<Rightarrow>
               started @ handled @
               fst (snd (stream_loop R rest interaction_id' (track_event_id chunk last_event_id) w1))))"
  by (simp add: Let_def split: sum.split prod.split)

lemma on_start_cases:
  "on_start chunk interaction_id = Inr (interaction_id', started) \<Longrightarrow>
   (start_chunk chunk \<and> map ev_event_type started = [START]) \<or>
   (\<not> start_chunk chunk \<and> started = [])"
  by (auto simp: on_start_def start_chunk_def split: if_splits option.splits)

lemma handle_chunk_start:
  "start_chunk chunk \<Longrightarrow> snd (handle_chunk R chunk interaction_id last_event_id w) = Inr []"
  by (simp add: handle_chunk_def start_chunk_def)

lemma on_complete_types:
  "map ev_event_type (snd (on_complete R chunk interaction_id last_event_id w)) = [COMPLETE]"
  by (simp add: on_complete_def Let_def split: prod.split)

lemma on_delta_types:
  "on_delta chunk interaction_id last_event_id = Inr events \<Longrightarrow>
   map ev_event_type events \<in> {[], [TEXT_DELTA], [THOUGHT]}"
  by (auto simp: on_delta_def split: attr.splits if_splits)

lemma handle_chunk_types:
  assumes "snd (handle_chunk R chunk interaction_id last_event_id w) = Inr handled"
  shows "map ev_event_type handled =
     (if chunk_event_type chunk = ''content.delta'' then map ev_event_type handled
      else if chunk_event_type chunk = ''interaction.complete'' then [COMPLETE]
      else if chunk_event_type chunk = ''error'' then [ERROR]
      else [])"
    and "chunk_event_type chunk = ''content.delta'' \<Longrightarrow>
         map ev_event_type handled \<in> {[], [TEXT_DELTA], [THOUGHT]}"
proof -
  show "map ev_event_type handled =
     (if chunk_event_type chunk = ''content.delta'' then map ev_event_type handled
      else if chunk_event_type chunk = ''interaction.complete'' then [COMPLETE]
      else if chunk_event_type chunk = ''error'' then [ERROR]
      else [])"
    using assms on_complete_types [of R chunk interaction_id last_event_id w]
    by (auto simp: handle_chunk_def on_error_def split: if_splits prod.splits)
  show "map ev_event_type handled \<in> {[], [TEXT_DELTA], [THOUGHT]}"
    if "chunk_event_type chunk = ''content.delta''"
    using assms that on_delta_types [of chunk interaction_id last_event_id handled]
    by (simp add: handle_chunk_def)
qed

lemma handle_chunk_no_start:
  assumes "snd (handle_chunk R chunk interaction_id last_event_id w) = Inr handled"
  shows "START \<notin> set (map ev_event_type handled)"
proof (cases "chunk_event_type chunk = ''content.delta''")
  case True
  from handle_chunk_types(2) [OF assms True] show ?thesis by auto
next
  case False
  with handle_chunk_types(1) [OF assms] show ?thesis by (auto split: if_splits)
qed

lemma handle_chunk_not_final:
  assumes "\<not> final_chunk chunk"
    and "snd (handle_chunk R chunk interaction_id last_event_id w) = Inr handled"
  shows "COMPLETE \<notin> set (map ev_event_type handled)"
    and "ERROR \<notin> set (map ev_event_type handled)"
proof -
  have "COMPLETE \<notin> set (map ev_event_type handled) \<and> ERROR \<notin> set (map ev_event_type handled)"
  proof (cases "chunk_event_type chunk = ''content.delta''")
    case True
    from handle_chunk_types(2) [OF assms(2) True] show ?thesis by auto
  next
    case False
    with handle_chunk_types(1) [OF assms(2)] assms(1) show ?thesis
      by (auto simp: final_chunk_def split: if_splits)
  qed
  then show "COMPLETE \<notin> set (map ev_event_type handled)"
    and "ERROR \<notin> set (map ev_event_type handled)"
    by simp_all
qed

lemma handle_chunk_final:
  assumes "final_chunk chunk"
  shows "\<exists>handled. snd (handle_chunk R chunk interaction_id last_event_id w) = Inr handled \<and>
           (map ev_event_type handled = [COMPLETE] \<or> map ev_event_type handled = [ERROR])"
  using assms on_complete_types [of R chunk interaction_id last_event_id w]
  by (auto simp: handle_chunk_def final_chunk_def on_error_def split: prod.splits)

lemma final_not_start: "final_chunk chunk \<Longrightarrow> \<not> start_chunk chunk"
  by (auto simp: final_chunk_def start_chunk_def)

lemma ends_at_final_append:
  "COMPLETE \<notin> set xs \<Longrightarrow> ERROR \<notin> set xs \<Longrightarrow> ends_at_final (xs @ ys) = ends_at_final ys"
  by (induction xs) auto

lemma ends_at_final_no_final:
  "COMPLETE \<notin> set xs \<Longrightarrow> ERROR \<notin> set xs \<Longrightarrow> ends_at_final xs"
  using ends_at_final_append [of xs "[]"] by simp

lemma no_start_events:
  "\<forall>chunk\<in>set stream. \<not> start_chunk chunk \<Longrightarrow>
   START \<notin> set (event_types (stream_loop R stream interaction_id last_event_id w))"
proof (induction stream arbitrary: interaction_id last_event_id w)
  case Nil
  then show ?case by (simp add: event_types_def)
next
  case (Cons chunk rest)
  show ?case
  proof (cases "on_start chunk interaction_id")
    case (Inl e)
    then show ?thesis by (simp add: event_types_def)
  next
    case (Inr p)
    obtain interaction_id' started where p: "p = (interaction_id', started)" by (cases p)
    from Cons.prems have "\<not> start_chunk chunk" by simp
    with on_start_cases [OF Inr [unfolded p]] have started: "started = []" by simp
    from Cons.prems have rest: "\<forall>chunk\<in>set rest. \<not> start_chunk chunk" by simp
    obtain w1 outcome where
      h: "handle_chunk R chunk interaction_id' (track_event_id chunk last_event_id) w = (w1, outcome)"
      by (cases "handle_chunk R chunk interaction_id' (track_event_id chunk last_event_id) w")
    show ?thesis
    proof (cases outcome)
      case (Inl e)
      then show ?thesis
        unfolding event_types_def stream_loop_events \<open>on_start chunk interaction_id = Inr p\<close> p started
        by (simp add: h)
    next
      case (Inr handled)
      with h have "snd (handle_chunk R chunk interaction_id' (track_event_id chunk last_event_id) w)
          = Inr handled" by simp
      from handle_chunk_no_start [OF this] Cons.IH [OF rest, of interaction_id'
          "track_event_id chunk last_event_id" w1]
      show ?thesis
        unfolding event_types_def stream_loop_events \<open>on_start chunk interaction_id = Inr p\<close>
          p started
        by (simp add: h Inr)
    qed
  qed
qed

lemma final_events:
  "stops_at_final stream \<Longrightarrow>
   ends_at_final (event_types (stream_loop R stream interaction_id last_event_id w))"
proof (induction stream arbitrary: interaction_id last_event_id w)
  case Nil
  then show ?case by (simp add: event_types_def)
next
  case (Cons chunk rest)
  show ?case
  proof (cases "on_start chunk interaction_id")
    case (Inl e)
    then show ?thesis by (simp add: event_types_def)
  next
    case (Inr p)
    obtain interaction_id' started where p: "p = (interaction_id', started)" by (cases p)
    note start = on_start_cases [OF Inr [unfolded p]]
    obtain w1 outcome where
      h: "handle_chunk R chunk interaction_id' (track_event_id chunk last_event_id) w = (w1, outcome)"
      by (cases "handle_chunk R chunk interaction_id' (track_event_id chunk last_event_id) w")
    then have outcome: "snd (handle_chunk R chunk interaction_id' (track_event_id chunk last_event_id) w)
        = outcome" by simp
    show ?thesis
    proof (cases outcome)
      case (Inl e)
      have "event_types (stream_loop R (chunk # rest) interaction_id last_event_id w) =
          map ev_event_type started"
        unfolding event_types_def stream_loop_events \<open>on_start chunk interaction_id = Inr p\<close> p
        by (simp add: h Inl)
      moreover from start have "COMPLETE \<notin> set (map ev_event_type started)"
        and "ERROR \<notin> set (map ev_event_type started)" by auto
      ultimately show ?thesis by (simp add: ends_at_final_no_final)
    next
      case (Inr handled)
      let ?later = "fst (snd (stream_loop R rest interaction_id' (track_event_id chunk last_event_id) w1))"
      have types: "event_types (stream_loop R (chunk # rest) interaction_id last_event_id w) =
          map ev_event_type started @ map ev_event_type handled @ map ev_event_type ?later"
        unfolding event_types_def stream_loop_events \<open>on_start chunk interaction_id = Inr p\<close> p
        by (simp add: h Inr)
      show ?thesis
      proof (cases "final_chunk chunk")
        case True
        with Cons.prems have "rest = []" by simp
        then have later: "?later = []" by simp
        from True final_not_start start have started: "started = []" by blast
        from handle_chunk_final [OF True, of R interaction_id' "track_event_id chunk last_event_id" w]
          outcome Inr
        have "map ev_event_type handled = [COMPLETE] \<or> map ev_event_type handled = [ERROR]"
          by simp
        then show ?thesis unfolding types later started by auto
      next
        case False
        with Cons.prems have "stops_at_final rest" by simp
        from Cons.IH [OF this]
        have later: "ends_at_final (map ev_event_type ?later)"
          by (simp add: event_types_def)
        from outcome Inr have handled:
          "snd (handle_chunk R chunk interaction_id' (track_event_id chunk last_event_id) w) = Inr handled"
          by simp
        have "COMPLETE \<notin> set (map ev_event_type started @ map ev_event_type handled)"
          and "ERROR \<notin> set (map ev_event_type started @ map ev_event_type handled)"
          using start handle_chunk_not_final [OF False handled] by auto
        then have "ends_at_final ((map ev_event_type started @ map ev_event_type handled) @
              map ev_event_type ?later) = ends_at_final (map ev_event_type ?later)"
          by (rule ends_at_final_append)
        with later show ?thesis unfolding types by simp
      qed
    qed
  qed
qed

lemma start_only_first:
  assumes "\<forall>chunk\<in>set (tl stream). \<not> start_chunk chunk"
  shows "START \<notin> set (tl (event_types (stream_loop R stream interaction_id last_event_id w)))"
proof (cases stream)
  case Nil
  then show ?thesis by (simp add: event_types_def)
next
  case (Cons chunk rest)
  with assms have rest: "\<forall>chunk\<in>set rest. \<not> start_chunk chunk" by simp
  show ?thesis
  proof (cases "on_start chunk interaction_id")
    case (Inl e)
    then show ?thesis by (simp add: event_types_def Cons)
  next
    case (Inr p)
    obtain interaction_id' started where p: "p = (interaction_id', started)" by (cases p)
    note start = on_start_cases [OF Inr [unfolded p]]
    obtain w1 outcome where
      h: "handle_chunk R chunk interaction_id' (track_event_id chunk last_event_id) w = (w1, outcome)"
      by (cases "handle_chunk R chunk interaction_id' (track_event_id chunk last_event_id) w")
    then have outcome: "snd (handle_chunk R chunk interaction_id' (track_event_id chunk last_event_id) w)
        = outcome" by simp
    show ?thesis
    proof (cases outcome)
      case (Inl e)
      have "event_types (stream_loop R stream interaction_id last_event_id w) =
          map ev_event_type started"
        unfolding event_types_def Cons stream_loop_events \<open>on_start chunk interaction_id = Inr p\<close>
          p
        by (simp add: h Inl)
      with start show ?thesis by auto
    next
      case (Inr handled)
      let ?later = "stream_loop R rest interaction_id' (track_event_id chunk last_event_id) w1"
      have types: "event_types (stream_loop R stream interaction_id last_event_id w) =
          map ev_event_type started @ map ev_event_type handled @ event_types ?later"
        unfolding event_types_def Cons stream_loop_events \<open>on_start chunk interaction_id = Inr p\<close>
          p
        by (simp add: h Inr)
      have later: "START \<notin> set (event_types ?later)"
        by (rule no_start_events [OF rest])
      from outcome Inr have handled:
        "snd (handle_chunk R chunk interaction_id' (track_event_id chunk last_event_id) w) = Inr handled"
        by simp
      have no_start: "START \<notin> set (map ev_event_type handled)"
        by (rule handle_chunk_no_start [OF handled])
      from start show ?thesis
      proof
        assume s: "start_chunk chunk \<and> map ev_event_type started = [START]"
        with handle_chunk_start [of chunk R interaction_id' "track_event_id chunk last_event_id" w]
          handled
        have "handled = []" by simp
        with s later show ?thesis unfolding types by simp
      next
        assume "\<not> start_chunk chunk \<and> started = []"
        then have "event_types (stream_loop R stream interaction_id last_event_id w) =
             map ev_event_type handled @ event_types ?later"
          unfolding types by simp
        moreover have "START \<notin> set (map ev_event_type handled @ event_types ?later)"
          using later no_start by simp
        ultimately show ?thesis
          by (metis list.sel(2) list.set_sel(2))
      qed
    qed
  qed
qed

text \<open>
  C2, as stated: for every sequence of provider chunks the events begin with at most one
  \<open>start\<close> and nothing is yielded after the first \<open>complete\<close> or \<open>error\<close>.
  The loop has no exit of its own: a text delta that the provider sends after an error
  chunk is yielded after the \<open>error\<close> event, and a second start chunk yields a
  second \<open>start\<close>.
\<close>

theorem stream_events_counterexample:
  "event_types (stream_research unreachable [plain_chunk ''error'', text_chunk ''late''] world0) =
     [ERROR, TEXT_DELTA] \<and>
   \<not> well_formed_events [ERROR, TEXT_DELTA] \<and>
   event_types (stream_research unreachable [started_chunk ''h1'', started_chunk ''h2''] world0) =
     [START, START] \<and>
   \<not> well_formed_events [START, START]"
  by (simp add: started_chunk_def text_chunk_def plain_chunk_def well_formed_events_def
        event_types_def stream_research_def on_start_def track_event_id_def handle_chunk_def
        on_delta_def on_error_def Let_def)

text \<open>
  C2, amended. For every sequence of provider chunks that has a start chunk at most as
  its first chunk and that stops at its first \<open>interaction.complete\<close> or \<open>error\<close>
  chunk, the events of \<open>stream_research\<close> begin with at most one \<open>start\<close>, and no
  event follows the first \<open>complete\<close> or \<open>error\<close>; the events in between are
  \<open>thought\<close> and \<open>text_delta\<close> events, the only other types.
\<close>

theorem stream_events_well_formed:
  assumes "\<forall>chunk\<in>set (tl stream). \<not> start_chunk chunk"
    and "stops_at_final stream"
  shows "well_formed_events (event_types (stream_research R stream w))"
  unfolding well_formed_events_def stream_research_def
  using start_only_first [OF assms(1)] final_events [OF assms(2)] by simp

theorem stream_events_well_formed_witness:
  "event_types (stream_research unreachable
      [started_chunk ''h1'', text_chunk ''foo'', text_chunk ''bar'', plain_chunk ''interaction.complete'']
      world0) = [START, TEXT_DELTA, TEXT_DELTA, COMPLETE] \<and>
   well_formed_events (event_types (stream_research unreachable
      [started_chunk ''h1'', text_chunk ''foo'', text_chunk ''bar'', plain_chunk ''interaction.complete'']
      world0))"
  using stream_events_well_formed [of
      "[started_chunk ''h1'', text_chunk ''foo'', text_chunk ''bar'', plain_chunk ''interaction.complete'']"
      unreachable world0]
  by (simp add: start_chunk_def final_chunk_def started_chunk_def text_chunk_def plain_chunk_def
        event_types_def stream_research_def on_start_def track_event_id_def handle_chunk_def
        on_delta_def on_complete_def get_result_def fetch_def unreachable_def world0_def Let_def)

section \<open>Polling until completion\<close>

lemma after_rounds_0: "after_rounds interaction_id poll_interval 0 w = w"
  by (simp add: after_rounds_def)

lemma after_rounds_Suc:
  "after_rounds interaction_id poll_interval k (after_rounds interaction_id poll_interval (Suc 0) w) =
     after_rounds interaction_id poll_interval (Suc k) w"
  by (simp add: after_rounds_def)

lemma after_rounds_step:
  "after_rounds interaction_id poll_interval (Suc 0) (after_rounds interaction_id poll_interval k w) =
     after_rounds interaction_id poll_interval (Suc k) w"
  by (simp add: after_rounds_def replicate_append_same)

lemma clock_reads_after_rounds:
  "clock_reads (after_rounds interaction_id poll_interval k w) = clock_reads w + k"
  by (simp add: after_rounds_def)

lemma get_status_fst:
  "fst (get_status R interaction_id w) = w\<lparr>fetched := fetched w @ [interaction_id]\<rparr>"
  by (simp add: get_status_def fetch_def split: sum.split)

lemma get_status_error:
  "snd (get_status R interaction_id w) = Inl e \<Longrightarrow> \<exists>msg. e = RemoteError msg"
  by (auto simp: get_status_def fetch_def split: sum.splits)

lemma extract_loop_error:
  "extract_loop outputs citations = Inl e \<Longrightarrow> e = TypeError ''grounding_chunks''"
  by (induction outputs arbitrary: citations)
     (auto simp: append_output_uris_def split: sum.splits option.splits attr.splits)

lemma result_of_error:
  "result_of interaction_id interaction = Inl e \<Longrightarrow>
   e = TypeError ''grounding_chunks'' \<or> e = ValidationError ''ResearchResult''"
  by (auto simp: result_of_def Let_def extract_citations_def new_ResearchResult_def
        dest: extract_loop_error split: if_splits sum.splits option.splits)

lemma get_result_error:
  "snd (get_result R interaction_id w) = Inl e \<Longrightarrow> e \<noteq> TimeoutError t h"
  by (auto simp: get_result_def fetch_def dest: result_of_error split: sum.splits)

lemma not_terminal_iff:
  "(s \<noteq> COMPLETED \<and> \<not> (s = FAILED \<or> s = CANCELLED)) \<longleftrightarrow> s = IN_PROGRESS"
  by (cases s) simp_all

lemma poll_loop_unfold:
  "poll_loop R interaction_id poll_interval timeout start_time w =
     (case snd (get_status R interaction_id w) of
        Inl e \<Rightarrow> Some (w\<lparr>fetched := fetched w @ [interaction_id]\<rparr>, Inl e)
      | Inr status \<Rightarrow>
          if st_status status = COMPLETED then
            Some (get_result R interaction_id (w\<lparr>fetched := fetched w @ [interaction_id]\<rparr>))
          else if st_status status = FAILED \<or> st_status status = CANCELLED then
            Some (w\<lparr>fetched := fetched w @ [interaction_id]\<rparr>,
                  Inr \<lparr>res_interaction_id = interaction_id,
                       res_status = st_status status,
                       res_content = None,
                       res_citations = None,
                       res_error = st_error status\<rparr>)
          else if real_of_int timeout \<le> time_time R (clock_reads w) - start_time then
            Some (w\<lparr>fetched := fetched w @ [interaction_id], clock_reads := Suc (clock_reads w)\<rparr>,
                  Inl (TimeoutError timeout interaction_id))
          else poll_loop R interaction_id poll_interval timeout start_time
                 (after_rounds interaction_id poll_interval (Suc 0) w))"
proof -
  obtain w1 observed where g: "get_status R interaction_id w = (w1, observed)"
    by (cases "get_status R interaction_id w")
  with get_status_fst [of R interaction_id w]
  have w1: "w1 = w\<lparr>fetched := fetched w @ [interaction_id]\<rparr>" by simp
  show ?thesis
    by (subst poll_loop.simps)
       (simp add: g w1 read_clock_def sleep_def after_rounds_def split: sum.split)
qed

lemma get_status_snd_cong:
  "length (fetched w) = length (fetched w') \<Longrightarrow>
   snd (get_status R interaction_id w) = snd (get_status R interaction_id w')"
  by (simp add: get_status_def fetch_def split: sum.split)

lemma poll_loop_rounds:
  assumes "\<forall>j<k. pending (snd (get_status R interaction_id (after_rounds interaction_id poll_interval j w))) \<and>
                 time_time R (clock_reads w + j) - start_time < real_of_int timeout"
  shows "poll_loop R interaction_id poll_interval timeout start_time w =
         poll_loop R interaction_id poll_interval timeout start_time
           (after_rounds interaction_id poll_interval k w)"
  using assms
proof (induction k)
  case 0
  then show ?case by (simp add: after_rounds_0)
next
  case (Suc k)
  let ?v = "after_rounds interaction_id poll_interval k w"
  from Suc.prems have "pending (snd (get_status R interaction_id ?v))"
    and late: "\<not> real_of_int timeout \<le> time_time R (clock_reads ?v) - start_time"
    by (simp_all add: clock_reads_after_rounds not_le)
  then obtain status where st: "snd (get_status R interaction_id ?v) = Inr status"
    and ip: "st_status status = IN_PROGRESS"
    by (auto simp: pending_def split: sum.splits)
  have "poll_loop R interaction_id poll_interval timeout start_time ?v =
        poll_loop R interaction_id poll_interval timeout start_time
          (after_rounds interaction_id poll_interval (Suc 0) ?v)"
    by (subst poll_loop_unfold) (simp add: st ip late)
  moreover from Suc have "poll_loop R interaction_id poll_interval timeout start_time w =
      poll_loop R interaction_id poll_interval timeout start_time ?v"
    by simp
  ultimately show ?case by (simp add: after_rounds_step)
qed

lemma timeout_only_when_reached:
  assumes "poll_loop R interaction_id poll_interval timeout start_time w = Some run"
  shows "\<forall>w' t h. run = (w', Inl (TimeoutError t h)) \<longrightarrow>
           (\<exists>k. (\<forall>j\<le>k. pending (snd (get_status R interaction_id
                                     (after_rounds interaction_id poll_interval j w)))) \<and>
                real_of_int timeout \<le> time_time R (clock_reads w + k) - start_time)"
proof (rule poll_loop.raw_induct
    [where P = "\<lambda>R interaction_id poll_interval timeout start_time w run.
       \<forall>w' t h. run = (w', Inl (TimeoutError t h)) \<longrightarrow>
           (\<exists>k. (\<forall>j\<le>k. pending (snd (get_status R interaction_id
                                     (after_rounds interaction_id poll_interval j w)))) \<and>
                real_of_int timeout \<le> time_time R (clock_reads w + k) - start_time)"])
  show "poll_loop R interaction_id poll_interval timeout start_time w = Some run" by fact
next
  fix f :: "remote \<Rightarrow> string \<Rightarrow> int \<Rightarrow> int \<Rightarrow> real \<Rightarrow> world \<Rightarrow> (world \<times> (error + ResearchResult)) option"
  fix R interaction_id poll_interval timeout start_time w run
  assume IH: "\<And>R interaction_id poll_interval timeout start_time w run.
      f R interaction_id poll_interval timeout start_time w = Some run \<Longrightarrow>
      \<forall>w' t h. run = (w', Inl (TimeoutError t h)) \<longrightarrow>
           (\<exists>k. (\<forall>j\<le>k. pending (snd (get_status R interaction_id
                                     (after_rounds interaction_id poll_interval j w)))) \<and>
                real_of_int timeout \<le> time_time R (clock_reads w + k) - start_time)"
  assume body: "(case get_status R interaction_id w of
        (w1, Inl e) \<Rightarrow> Some (w1, Inl e)
      | (w1, Inr status) \<Rightarrow>
          if st_status status = COMPLETED then Some (get_result R interaction_id w1)
          else if st_status status = FAILED \<or> st_status status = CANCELLED then
            Some (w1, Inr \<lparr>res_interaction_id = interaction_id,
                           res_status = st_status status,
                           res_content = None,
                           res_citations = None,
                           res_error = st_error status\<rparr>)
          else
            (case read_clock R w1 of
               (w2, now) \<Rightarrow>
                 if now - start_time \<ge> real_of_int timeout then
                   Some (w2, Inl (TimeoutError timeout interaction_id))
                 else
                   f R interaction_id poll_interval timeout start_time
                     (sleep poll_interval w2))) = Some run"
  obtain w1 observed where g: "get_status R interaction_id w = (w1, observed)"
    by (cases "get_status R interaction_id w")
  then have obs: "snd (get_status R interaction_id w) = observed" by simp
  from g get_status_fst [of R interaction_id w]
  have w1: "w1 = w\<lparr>fetched := fetched w @ [interaction_id]\<rparr>" by simp
  show "\<forall>w' t h. run = (w', Inl (TimeoutError t h)) \<longrightarrow>
           (\<exists>k. (\<forall>j\<le>k. pending (snd (get_status R interaction_id
                                     (after_rounds interaction_id poll_interval j w)))) \<and>
                real_of_int timeout \<le> time_time R (clock_reads w + k) - start_time)"
  proof (intro allI impI)
    fix w' t h
    assume run: "run = (w', Inl (TimeoutError t h))"
    show "\<exists>k. (\<forall>j\<le>k. pending (snd (get_status R interaction_id
                                     (after_rounds interaction_id poll_interval j w)))) \<and>
                real_of_int timeout \<le> time_time R (clock_reads w + k) - start_time"
    proof (cases observed)
      case (Inl e)
      with body g have "run = (w1, Inl e)" by simp
      moreover from get_status_error [of R interaction_id w e] obs Inl
      obtain msg where "e = RemoteError msg" by auto
      ultimately show ?thesis using run by simp
    next
      case (Inr status)
      consider (completed) "st_status status = COMPLETED"
        | (ended) "st_status status = FAILED \<or> st_status status = CANCELLED"
        | (running) "st_status status = IN_PROGRESS"
        by (cases "st_status status") auto
      then show ?thesis
      proof cases
        case completed
        with body g Inr have "get_result R interaction_id w1 = run" by simp
        with run have "snd (get_result R interaction_id w1) = Inl (TimeoutError t h)" by simp
        from get_result_error [OF this, of t h] show ?thesis by simp
      next
        case ended
        with body g Inr run show ?thesis by (auto split: if_splits)
      next
        case running
        have first: "pending (snd (get_status R interaction_id
                        (after_rounds interaction_id poll_interval 0 w)))"
          using obs Inr running by (simp add: after_rounds_0 pending_def)
        show ?thesis
        proof (cases "real_of_int timeout \<le> time_time R (clock_reads w) - start_time")
          case True
          with first have "(\<forall>j\<le>0. pending (snd (get_status R interaction_id
                                     (after_rounds interaction_id poll_interval j w)))) \<and>
                real_of_int timeout \<le> time_time R (clock_reads w + 0) - start_time"
            by simp
          then show ?thesis by blast
        next
          case False
          have next_world: "sleep poll_interval (fst (read_clock R w1)) =
              after_rounds interaction_id poll_interval (Suc 0) w"
            by (simp add: w1 sleep_def read_clock_def after_rounds_def)
          from body g Inr running False
          have "f R interaction_id poll_interval timeout start_time
                  (after_rounds interaction_id poll_interval (Suc 0) w) = Some run"
            using next_world by (simp add: read_clock_def w1 split: if_splits)
          from IH [OF this] run obtain k where
            k: "\<forall>j\<le>k. pending (snd (get_status R interaction_id
                  (after_rounds interaction_id poll_interval j
                     (after_rounds interaction_id poll_interval (Suc 0) w))))"
            and reached: "real_of_int timeout \<le>
                time_time R (clock_reads (after_rounds interaction_id poll_interval (Suc 0) w) + k) - start_time"
            by blast
          have "\<forall>j\<le>Suc k. pending (snd (get_status R interaction_id
                  (after_rounds interaction_id poll_interval j w)))"
          proof (intro allI impI)
            fix j assume "j \<le> Suc k"
            show "pending (snd (get_status R interaction_id
                  (after_rounds interaction_id poll_interval j w)))"
            proof (cases j)
              case 0
              with first show ?thesis by simp
            next
              case (Suc i)
              with \<open>j \<le> Suc k\<close> have "i \<le> k" by simp
              with k show ?thesis by (simp add: Suc after_rounds_Suc)
            qed
          qed
          moreover from reached
          have "real_of_int timeout \<le> time_time R (clock_reads w + Suc k) - start_time"
            by (simp add: clock_reads_after_rounds)
          ultimately show ?thesis by blast
        qed
      qed
    qed
  qed
qed

lemma timeout_when_reached:
  assumes pend: "\<forall>j\<le>k. pending (snd (get_status R interaction_id
                            (after_rounds interaction_id poll_interval j w)))"
    and reached: "real_of_int timeout \<le> time_time R (clock_reads w + k) - start_time"
  shows "raises_timeout (poll_loop R interaction_id poll_interval timeout start_time w)"
proof -
  define m where "m = (LEAST n. real_of_int timeout \<le> time_time R (clock_reads w + n) - start_time)"
  have m_reached: "real_of_int timeout \<le> time_time R (clock_reads w + m) - start_time"
    unfolding m_def by (rule LeastI) (rule reached)
  have "m \<le> k" unfolding m_def by (rule Least_le) (rule reached)
  have before: "\<And>j. j < m \<Longrightarrow> time_time R (clock_reads w + j) - start_time < real_of_int timeout"
    using not_less_Least [of _ "\<lambda>n. real_of_int timeout \<le> time_time R (clock_reads w + n) - start_time"]
    unfolding m_def by (simp add: not_le)
  let ?v = "after_rounds interaction_id poll_interval m w"
  have "poll_loop R interaction_id poll_interval timeout start_time w =
        poll_loop R interaction_id poll_interval timeout start_time ?v"
    using pend before \<open>m \<le> k\<close> by (intro poll_loop_rounds) simp
  moreover from pend \<open>m \<le> k\<close> have "pending (snd (get_status R interaction_id ?v))"
    by simp
  then obtain status
    where "snd (get_status R interaction_id ?v) = Inr status" "st_status status = IN_PROGRESS"
    by (cases "snd (get_status R interaction_id ?v)") (simp_all add: pending_def)
  then have "poll_loop R interaction_id poll_interval timeout start_time ?v =
      Some (?v\<lparr>fetched := fetched ?v @ [interaction_id], clock_reads := Suc (clock_reads ?v)\<rparr>,
            Inl (TimeoutError timeout interaction_id))"
    using m_reached by (subst poll_loop_unfold) (simp add: clock_reads_after_rounds)
  ultimately show ?thesis by (simp add: raises_timeout_def)
qed

lemma poll_loop_terminal:
  assumes before: "\<forall>j<k. pending (snd (get_status R interaction_id
                            (after_rounds interaction_id poll_interval j w))) \<and>
                 time_time R (clock_reads w + j) - start_time < real_of_int timeout"
    and status: "snd (get_status R interaction_id (after_rounds interaction_id poll_interval k w))
                   = Inr status"
  shows "st_status status = FAILED \<or> st_status status = CANCELLED \<Longrightarrow>
         poll_loop R interaction_id poll_interval timeout start_time w =
           Some ((after_rounds interaction_id poll_interval k w)
                   \<lparr>fetched := fetched (after_rounds interaction_id poll_interval k w) @ [interaction_id]\<rparr>,
                 Inr \<lparr>res_interaction_id = interaction_id,
                      res_status = st_status status,
                      res_content = None,
                      res_citations = None,
                      res_error = st_error status\<rparr>)"
    and "st_status status = COMPLETED \<Longrightarrow>
         poll_loop R interaction_id poll_interval timeout start_time w =
           Some (get_result R interaction_id
                  ((after_rounds interaction_id poll_interval k w)
                     \<lparr>fetched := fetched (after_rounds interaction_id poll_interval k w) @ [interaction_id]\<rparr>))"
proof -
  let ?v = "after_rounds interaction_id poll_interval k w"
  have rounds: "poll_loop R interaction_id poll_interval timeout start_time w =
        poll_loop R interaction_id poll_interval timeout start_time ?v"
    by (rule poll_loop_rounds [OF before])
  show "st_status status = FAILED \<or> st_status status = CANCELLED \<Longrightarrow>
         poll_loop R interaction_id poll_interval timeout start_time w =
           Some (?v\<lparr>fetched := fetched ?v @ [interaction_id]\<rparr>,
                 Inr \<lparr>res_interaction_id = interaction_id,
                      res_status = st_status status,
                      res_content = None,
                      res_citations = None,
                      res_error = st_error status\<rparr>)"
    unfolding rounds by (subst poll_loop_unfold) (auto simp: status)
  show "st_status status = COMPLETED \<Longrightarrow>
         poll_loop R interaction_id poll_interval timeout start_time w =
           Some (get_result R interaction_id (?v\<lparr>fetched := fetched ?v @ [interaction_id]\<rparr>))"
    unfolding rounds by (subst poll_loop_unfold) (simp add: status)
qed

lemma poll_entry:
  "poll R interaction_id w j =
     snd (get_status R interaction_id
            (after_rounds interaction_id poll_interval j (w\<lparr>clock_reads := Suc (clock_reads w)\<rparr>)))"
  unfolding poll_def by (rule get_status_snd_cong) (simp add: after_rounds_def)

lemma elapsed_entry:
  "elapsed R w j =
     time_time R (clock_reads (w\<lparr>clock_reads := Suc (clock_reads w)\<rparr>) + j) - time_time R (clock_reads w)"
  by (simp add: elapsed_def)

lemma at_poll_entry:
  "at_poll interaction_id poll_interval k w =
     (after_rounds interaction_id poll_interval k (w\<lparr>clock_reads := Suc (clock_reads w)\<rparr>))
       \<lparr>fetched := fetched (after_rounds interaction_id poll_interval k
                              (w\<lparr>clock_reads := Suc (clock_reads w)\<rparr>)) @ [interaction_id]\<rparr>"
  by (simp add: at_poll_def after_rounds_def replicate_append_same)

lemma poll_until_complete_entry:
  "poll_until_complete R interaction_id poll_interval timeout w =
     poll_loop R interaction_id poll_interval timeout (time_time R (clock_reads w))
       (w\<lparr>clock_reads := Suc (clock_reads w)\<rparr>)"
  by (simp add: poll_until_complete_def read_clock_def)

lemma raises_timeout_iff:
  "raises_timeout run \<longleftrightarrow> (\<exists>w' t h. run = Some (w', Inl (TimeoutError t h)))"
  by (auto simp: raises_timeout_def split: option.splits sum.splits error.splits)

text \<open>
  C1. For every handle, poll interval, timeout, service and clock:
  \<^item> \<open>poll_until_complete\<close> raises \<open>TimeoutError\<close> if and only if, at some poll,
    the elapsed time that the loop computes has reached the timeout while that poll and
    all polls before it returned a pending status (no terminal status, and no failure of
    the fetch, has been observed);
  \<^item> when the first poll that is not pending reports failed or cancelled, and the
    elapsed time computed after each poll before it was below the timeout, the call
    returns the result with that status, the error of that status, and neither content
    nor citations;
  \<^item> when it reports completed instead, the call returns what \<open>get_result\<close> returns
    for the same handle, called right after that poll.
  Time is what the loop reads from the clock after a pending poll; a run in which no poll
  ends the loop is the value \<open>None\<close>, which is neither a result nor a raise.
\<close>

theorem poll_until_complete_outcomes:
  "(raises_timeout (poll_until_complete R interaction_id poll_interval timeout w) \<longleftrightarrow>
      (\<exists>k. (\<forall>j\<le>k. pending (poll R interaction_id w j)) \<and>
           real_of_int timeout \<le> elapsed R w k)) \<and>
   (\<forall>k status.
      (\<forall>j<k. pending (poll R interaction_id w j) \<and> elapsed R w j < real_of_int timeout) \<and>
      poll R interaction_id w k = Inr status \<and>
      (st_status status = FAILED \<or> st_status status = CANCELLED) \<longrightarrow>
      poll_until_complete R interaction_id poll_interval timeout w =
        Some (at_poll interaction_id poll_interval k w,
              Inr \<lparr>res_interaction_id = interaction_id,
                   res_status = st_status status,
                   res_content = None,
                   res_citations = None,
                   res_error = st_error status\<rparr>)) \<and>
   (\<forall>k status.
      (\<forall>j<k. pending (poll R interaction_id w j) \<and> elapsed R w j < real_of_int timeout) \<and>
      poll R interaction_id w k = Inr status \<and>
      st_status status = COMPLETED \<longrightarrow>
      poll_until_complete R interaction_id poll_interval timeout w =
        Some (get_result R interaction_id (at_poll interaction_id poll_interval k w)))"
proof (intro conjI allI impI iffI)
  assume "raises_timeout (poll_until_complete R interaction_id poll_interval timeout w)"
  then obtain w' t h where
    "poll_loop R interaction_id poll_interval timeout (time_time R (clock_reads w))
       (w\<lparr>clock_reads := Suc (clock_reads w)\<rparr>) = Some (w', Inl (TimeoutError t h))"
    by (auto simp: raises_timeout_iff poll_until_complete_entry)
  from timeout_only_when_reached [OF this]
  show "\<exists>k. (\<forall>j\<le>k. pending (poll R interaction_id w j)) \<and> real_of_int timeout \<le> elapsed R w k"
    by (simp add: poll_entry [where poll_interval = poll_interval] elapsed_entry)
next
  assume "\<exists>k. (\<forall>j\<le>k. pending (poll R interaction_id w j)) \<and> real_of_int timeout \<le> elapsed R w k"
  then obtain k where "\<forall>j\<le>k. pending (poll R interaction_id w j)"
    and "real_of_int timeout \<le> elapsed R w k" by blast
  then show "raises_timeout (poll_until_complete R interaction_id poll_interval timeout w)"
    unfolding poll_until_complete_entry poll_entry [where poll_interval = poll_interval] elapsed_entry
    by (rule timeout_when_reached)
next
  fix k status
  assume a: "(\<forall>j<k. pending (poll R interaction_id w j) \<and> elapsed R w j < real_of_int timeout) \<and>
      poll R interaction_id w k = Inr status \<and>
      (st_status status = FAILED \<or> st_status status = CANCELLED)"
  then have before: "\<forall>j<k. pending (poll R interaction_id w j) \<and> elapsed R w j < real_of_int timeout"
    and status: "poll R interaction_id w k = Inr status"
    and ended: "st_status status = FAILED \<or> st_status status = CANCELLED"
    by simp_all
  show "poll_until_complete R interaction_id poll_interval timeout w =
        Some (at_poll interaction_id poll_interval k w,
              Inr \<lparr>res_interaction_id = interaction_id,
                   res_status = st_status status,
                   res_content = None,
                   res_citations = None,
                   res_error = st_error status\<rparr>)"
    unfolding poll_until_complete_entry at_poll_entry
    by (rule poll_loop_terminal(1)
          [OF before [unfolded poll_entry [where poll_interval = poll_interval] elapsed_entry]
              status [unfolded poll_entry [where poll_interval = poll_interval]] ended])
next
  fix k status
  assume a: "(\<forall>j<k. pending (poll R interaction_id w j) \<and> elapsed R w j < real_of_int timeout) \<and>
      poll R interaction_id w k = Inr status \<and>
      st_status status = COMPLETED"
  then have before: "\<forall>j<k. pending (poll R interaction_id w j) \<and> elapsed R w j < real_of_int timeout"
    and status: "poll R interaction_id w k = Inr status"
    and completed: "st_status status = COMPLETED"
    by simp_all
  show "poll_until_complete R interaction_id poll_interval timeout w =
        Some (get_result R interaction_id (at_poll interaction_id poll_interval k w))"
    unfolding poll_until_complete_entry at_poll_entry
    by (rule poll_loop_terminal(2)
          [OF before [unfolded poll_entry [where poll_interval = poll_interval] elapsed_entry]
              status [unfolded poll_entry [where poll_interval = poll_interval]] completed])
qed

theorem poll_until_complete_outcomes_witness:
  "raises_timeout (poll_until_complete (serving running) ''h1'' 1 2 world0) \<and>
   poll_until_complete (ends_after 2 broken) ''h1'' 1 10 world0 =
     Some (\<lparr>fetched = [''h1'', ''h1'', ''h1''], created = [], generated = [],
            clock_reads = 3, slept = [1, 1]\<rparr>,
           Inr \<lparr>res_interaction_id = ''h1'', res_status = FAILED, res_content = None,
                res_citations = None, res_error = Some ''boom''\<rparr>) \<and>
   poll_until_complete (serving three_outputs) ''h1'' 1 10 world0 =
     Some (\<lparr>fetched = [''h1'', ''h1''], created = [], generated = [],
            clock_reads = 1, slept = []\<rparr>,
           Inr \<lparr>res_interaction_id = ''h1'', res_status = COMPLETED, res_content = Some ''final'',
                res_citations = None, res_error = None\<rparr>)"
proof (intro conjI)
  have pend: "pending (poll (serving running) ''h1'' world0 j)" for j
    by (simp add: poll_def pending_def get_status_def fetch_def serving_def running_def
          dict_get_status_map)
  have late: "real_of_int 2 \<le> elapsed (serving running) world0 1"
    by (simp add: elapsed_def serving_def unreachable_def world0_def)
  have "\<exists>k. (\<forall>j\<le>k. pending (poll (serving running) ''h1'' world0 j)) \<and>
      real_of_int 2 \<le> elapsed (serving running) world0 k"
    using pend late by blast
  then show "raises_timeout (poll_until_complete (serving running) ''h1'' 1 2 world0)"
    by (rule iffD2 [OF poll_until_complete_outcomes [THEN conjunct1]])
next
  have early: "j < 2 \<Longrightarrow> pending (poll (ends_after 2 broken) ''h1'' world0 j) \<and>
      elapsed (ends_after 2 broken) world0 j < real_of_int 10" for j
    by (simp add: poll_def pending_def get_status_def fetch_def ends_after_def running_def
          dict_get_status_map elapsed_def unreachable_def world0_def)
  have final: "poll (ends_after 2 broken) ''h1'' world0 2 =
      Inr \<lparr>st_interaction_id = ''h1'', st_status = FAILED, st_error = Some ''boom''\<rparr>"
    by (simp add: poll_def get_status_def fetch_def ends_after_def broken_def
          dict_get_status_map str_if_truthy_def world0_def)
  have "poll_until_complete (ends_after 2 broken) ''h1'' 1 10 world0 =
        Some (at_poll ''h1'' 1 2 world0,
              Inr \<lparr>res_interaction_id = ''h1'',
                   res_status = FAILED,
                   res_content = None,
                   res_citations = None,
                   res_error = Some ''boom''\<rparr>)"
    using poll_until_complete_outcomes [THEN conjunct2, THEN conjunct1, rule_format,
        of 2 "ends_after 2 broken" "''h1''" world0 10
           "\<lparr>st_interaction_id = ''h1'', st_status = FAILED, st_error = Some ''boom''\<rparr>" 1]
      early final
    by simp
  then show "poll_until_complete (ends_after 2 broken) ''h1'' 1 10 world0 =
     Some (\<lparr>fetched = [''h1'', ''h1'', ''h1''], created = [], generated = [],
            clock_reads = 3, slept = [1, 1]\<rparr>,
           Inr \<lparr>res_interaction_id = ''h1'', res_status = FAILED, res_content = None,
                res_citations = None, res_error = Some ''boom''\<rparr>)"
    by (simp add: at_poll_def world0_def numeral_2_eq_2 numeral_3_eq_3)
next
  have first: "poll (serving three_outputs) ''h1'' world0 0 =
      Inr \<lparr>st_interaction_id = ''h1'', st_status = COMPLETED, st_error = None\<rparr>"
    by (simp add: poll_def get_status_def fetch_def serving_def three_outputs_def
          dict_get_status_map str_if_truthy_def world0_def)
  have "poll_until_complete (serving three_outputs) ''h1'' 1 10 world0 =
        Some (get_result (serving three_outputs) ''h1'' (at_poll ''h1'' 1 0 world0))"
    using poll_until_complete_outcomes [THEN conjunct2, THEN conjunct2, rule_format,
        of 0 "serving three_outputs" "''h1''" world0 10
           "\<lparr>st_interaction_id = ''h1'', st_status = COMPLETED, st_error = None\<rparr>" 1]
      first
    by simp
  then show "poll_until_complete (serving three_outputs) ''h1'' 1 10 world0 =
     Some (\<lparr>fetched = [''h1'', ''h1''], created = [], generated = [],
            clock_reads = 1, slept = []\<rparr>,
           Inr \<lparr>res_interaction_id = ''h1'', res_status = COMPLETED, res_content = Some ''final'',
                res_citations = None, res_error = None\<rparr>)"
    by (simp add: at_poll_def world0_def get_result_def fetch_def serving_def result_of_def
          three_outputs_def text_output_def dict_get_status_map str_if_truthy_def
          extract_citations_def append_output_uris_def new_ResearchResult_def Let_def)
qed

end
